theory Spec2Isabelle
  imports Main
begin

section \<open>Data model\<close>

text \<open>
  \<^verbatim>\<open>type Level int\<close> with the five constants numbered by \<^verbatim>\<open>iota\<close>. A level is an
  integer: Go lets a caller convert any integer to a \<^verbatim>\<open>Level\<close>, and the only operation
  the package performs on levels is the comparison \<^verbatim>\<open>>=\<close>.
\<close>

type_synonym Level = int

definition LevelDebug :: Level where "LevelDebug = 0"
definition LevelInfo :: Level where "LevelInfo = 1"
definition LevelWarn :: Level where "LevelWarn = 2"
definition LevelError :: Level where "LevelError = 3"
definition LevelFatal :: Level where "LevelFatal = 4"

text \<open>
  A field value is an \<^verbatim>\<open>interface{}\<close>. The package does three things with one: it copies
  it, it asks whether its dynamic type is \<^verbatim>\<open>string\<close>, and it prints it. \<open>VString s\<close> is
  the string \<open>s\<close>; \<open>VOther r\<close> is a value of any other dynamic type, represented by the
  text \<open>r\<close> that the verb \<^verbatim>\<open>%v\<close> of package fmt prints for it.
\<close>

datatype Value = VString string | VOther string

text \<open>
  \<^verbatim>\<open>type Fields map[string]interface{}\<close>. A Go map is a reference: a \<open>Fields\<close> value is
  either nil (\<open>None\<close>) or the address of a map object in the store (\<open>Some a\<close>), and the
  contents of the map object are a finite partial function from keys to values.
\<close>

type_synonym fmap = "string \<rightharpoonup> Value"
type_synonym Fields = "nat option"

text \<open>
  \<^verbatim>\<open>context.Context\<close>: nil (\<open>None\<close>), or a context whose \<^verbatim>\<open>Value(key)\<close> method answers
  nil (\<open>None\<close>) or the value stored under the key.
\<close>

datatype ctxkey = CtxKey string
type_synonym Context = "(ctxkey \<Rightarrow> Value option) option"

text \<open>An \<^verbatim>\<open>error\<close> is nil (\<open>None\<close>) or carries the text its \<^verbatim>\<open>Error()\<close> method returns.\<close>

type_synonym error = "string option"

text \<open>
  What the code reads and changes outside its arguments: the store of map objects
  (\<open>heap\<close>, addressed by position; allocation appends), what the program has sent to
  standard output (\<open>stdout\<close>, one entry per \<^verbatim>\<open>fmt.Printf\<close> call), the error with which
  a write to standard output is answered (\<open>stdout_err\<close>: nil when the text reaches its
  destination, an error when it does not, as on a closed descriptor), the text
  \<^verbatim>\<open>time.Now().Format("2006-01-02 15:04:05")\<close> returns (\<open>now\<close>), and the order in which a
  \<^verbatim>\<open>range\<close> statement visits the keys of a map (\<open>range_order\<close>), which Go leaves
  unspecified. The record is extensible: providers other than the console one keep their
  own state in the extension.
\<close>

record world =
  heap :: "fmap list"
  stdout :: "string list"
  stdout_err :: error
  now :: string
  range_order :: "fmap \<Rightarrow> string list"

text \<open>
  What these files use and do not define: the constant \<^verbatim>\<open>TraceIDKey\<close> of the package,
  \<^verbatim>\<open>fmt.Sprintf\<close>, and the escaping that the verb \<^verbatim>\<open>%q\<close> applies to the text it puts
  between double quotes.
\<close>

record deps =
  TraceIDKey :: ctxkey
  Sprintf :: "string \<Rightarrow> Value list \<Rightarrow> string"
  quote_body :: "string \<Rightarrow> string"

section \<open>The store of map objects\<close>

definition deref :: "'z world_scheme \<Rightarrow> Fields \<Rightarrow> fmap" where
  "deref w f = (case f of None \<Rightarrow> Map.empty | Some a \<Rightarrow> heap w ! a)"

definition allocated :: "'z world_scheme \<Rightarrow> Fields \<Rightarrow> bool" where
  "allocated w f = (case f of None \<Rightarrow> True | Some a \<Rightarrow> a < length (heap w))"

text \<open>\<^verbatim>\<open>make(Fields)\<close>: a new, empty map object.\<close>

definition make_Fields :: "'z world_scheme \<Rightarrow> nat \<times> 'z world_scheme" where
  "make_Fields w = (length (heap w), w\<lparr>heap := heap w @ [Map.empty]\<rparr>)"

text \<open>
  \<^verbatim>\<open>maps.Copy(dst, src)\<close>: every entry of \<open>src\<close> is stored in \<open>dst\<close>, replacing the entry
  \<open>dst\<close> has under the same key. Ranging over a nil \<open>src\<close> visits nothing. The
  destination is always the result of \<^verbatim>\<open>make\<close> here, hence an address.
\<close>

definition maps_Copy :: "nat \<Rightarrow> Fields \<Rightarrow> 'z world_scheme \<Rightarrow> 'z world_scheme" where
  "maps_Copy dst src w = w\<lparr>heap := (heap w)[dst := (heap w ! dst) ++ deref w src]\<rparr>"

text \<open>\<^verbatim>\<open>m[k] = v\<close> on the map object at \<open>dst\<close>.\<close>

definition map_assign :: "nat \<Rightarrow> string \<Rightarrow> Value \<Rightarrow> 'z world_scheme \<Rightarrow> 'z world_scheme" where
  "map_assign dst k v w = w\<lparr>heap := (heap w)[dst := (heap w ! dst)(k \<mapsto> v)]\<rparr>"

text \<open>The map literal \<^verbatim>\<open>Fields{k: v}\<close>: a new map object with one entry.\<close>

definition Fields_literal :: "string \<Rightarrow> Value \<Rightarrow> 'z world_scheme \<Rightarrow> Fields \<times> 'z world_scheme" where
  "Fields_literal k v w = (case make_Fields w of (m, w1) \<Rightarrow> (Some m, map_assign m k v w1))"

section \<open>fieldsHandler\<close>

record 'z FieldsHandler =
  ExtractFieldsFromContext ::
    "Context \<Rightarrow> Fields \<Rightarrow> 'z world_scheme \<Rightarrow> Fields \<times> 'z world_scheme"
  MergeFields ::
    "Fields \<Rightarrow> Fields \<Rightarrow> 'z world_scheme \<Rightarrow> Fields \<times> 'z world_scheme"

definition fieldsHandler_ExtractFieldsFromContext ::
  "deps \<Rightarrow> Context \<Rightarrow> Fields \<Rightarrow> 'z world_scheme \<Rightarrow> Fields \<times> 'z world_scheme" where
  "fieldsHandler_ExtractFieldsFromContext d ctx flds w =
     (case ctx of
        None \<Rightarrow> (flds, w)
      | Some c \<Rightarrow>
          (case make_Fields w of (result, w1) \<Rightarrow>
             let w2 = maps_Copy result flds w1 in
             (case c (TraceIDKey d) of
                Some (VString traceID) \<Rightarrow>
                  (Some result, map_assign result ''trace_id'' (VString traceID) w2)
              | _ \<Rightarrow> (Some result, w2))))"

definition fieldsHandler_MergeFields ::
  "Fields \<Rightarrow> Fields \<Rightarrow> 'z world_scheme \<Rightarrow> Fields \<times> 'z world_scheme" where
  "fieldsHandler_MergeFields fields1 fields2 w =
     (case make_Fields w of (result, w1) \<Rightarrow>
        let w2 = maps_Copy result fields1 w1;
            w3 = maps_Copy result fields2 w2
        in (Some result, w3))"

definition NewFieldsHandler :: "deps \<Rightarrow> 'z FieldsHandler" where
  "NewFieldsHandler d =
     \<lparr>ExtractFieldsFromContext = fieldsHandler_ExtractFieldsFromContext d,
      MergeFields = fieldsHandler_MergeFields\<rparr>"

section \<open>Configuration\<close>

text \<open>\<^verbatim>\<open>LoggerConfig\<close> is a struct with no field; \<^verbatim>\<open>ProviderConfig\<close> embeds it.\<close>

type_synonym LoggerConfig = unit

record ProviderConfig =
  LoggerConfig :: LoggerConfig
  Level :: Level

section \<open>Providers\<close>

text \<open>
  The interface \<^verbatim>\<open>LoggerProvider\<close>: a provider is its three methods, each of which may
  read and change the world. A failure is reported through the returned \<^verbatim>\<open>error\<close>.
  The methods of a provider and of a fields handler return: one that panics or runs
  forever, a nil provider and a nil handler are not modelled.
\<close>

record 'z LoggerProvider =
  Write ::
    "Context \<Rightarrow> Level \<Rightarrow> string \<Rightarrow> Fields \<Rightarrow> 'z world_scheme \<Rightarrow> error \<times> 'z world_scheme"
  ShouldLog :: "Context \<Rightarrow> Level \<Rightarrow> 'z world_scheme \<Rightarrow> bool \<times> 'z world_scheme"
  Close :: "Context \<Rightarrow> 'z world_scheme \<Rightarrow> error \<times> 'z world_scheme"

subsection \<open>The console provider\<close>

record fmtProvider =
  config :: ProviderConfig

text \<open>\<^verbatim>\<open>strings.Join(elems, sep)\<close>.\<close>

fun strings_Join :: "string list \<Rightarrow> string \<Rightarrow> string" where
  "strings_Join [] sep = []"
| "strings_Join [x] sep = x"
| "strings_Join (x # y # ys) sep = x @ sep @ strings_Join (y # ys) sep"

text \<open>
  The verb \<^verbatim>\<open>%q\<close> on a string: the escaped text between two double quotes
  (\<open>CHR 0x22\<close>).
\<close>

definition fmt_q :: "deps \<Rightarrow> string \<Rightarrow> string" where
  "fmt_q d s = CHR 0x22 # quote_body d s @ [CHR 0x22]"

text \<open>One turn of the loop of \<^verbatim>\<open>serializeFields\<close>: the type switch on the value.\<close>

definition serializePair :: "deps \<Rightarrow> string \<Rightarrow> Value \<Rightarrow> string" where
  "serializePair d k v =
     (case v of
        VString val \<Rightarrow> k @ ''='' @ fmt_q d val
      | VOther val \<Rightarrow> k @ ''='' @ val)"

text \<open>
  \<^verbatim>\<open>serializeFields\<close> on the contents \<open>m\<close> of its argument (empty for a nil map), the
  keys visited in the order \<open>ks\<close>.
\<close>

definition serializeFields :: "deps \<Rightarrow> string list \<Rightarrow> fmap \<Rightarrow> string" where
  "serializeFields d ks m =
     (if dom m = {} then []
      else
        let pairs = List.map_filter (\<lambda>k. map_option (serializePair d k) (m k)) ks
        in ''{'' @ strings_Join pairs '' '' @ ''}'')"

definition fmtProvider_ShouldLog :: "fmtProvider \<Rightarrow> Context \<Rightarrow> Level \<Rightarrow> bool" where
  "fmtProvider_ShouldLog p ctx level = (level \<ge> Level (fmtProvider.config p))"

definition levelStr :: "Level \<Rightarrow> string" where
  "levelStr level =
     (if level = LevelDebug then ''debug''
      else if level = LevelInfo then ''info''
      else if level = LevelWarn then ''warning''
      else if level = LevelError then ''error''
      else if level = LevelFatal then ''critical''
      else [])"

text \<open>
  \<^verbatim>\<open>fmt.Printf\<close> with the text its verbs produce: the text is sent to standard output,
  and the error of that write is returned.
\<close>

definition fmt_Printf :: "string \<Rightarrow> 'z world_scheme \<Rightarrow> error \<times> 'z world_scheme" where
  "fmt_Printf s w = (stdout_err w, w\<lparr>stdout := stdout w @ [s]\<rparr>)"

text \<open>\<^verbatim>\<open>Write\<close> calls \<^verbatim>\<open>fmt.Printf\<close> as a statement: what it returns is discarded.\<close>

definition fmtProvider_Write ::
  "deps \<Rightarrow> fmtProvider \<Rightarrow> Context \<Rightarrow> Level \<Rightarrow> string \<Rightarrow> Fields \<Rightarrow> 'z world_scheme \<Rightarrow>
     error \<times> 'z world_scheme" where
  "fmtProvider_Write d p ctx level message flds w =
     (if \<not> fmtProvider_ShouldLog p ctx level then (None, w)
      else
        let m = deref w flds;
            line = ''['' @ now w @ ''] '' @ levelStr level @ '' '' @ [CHR 0x22] @ message @
                   [CHR 0x22] @ '' '' @ serializeFields d (range_order w m) m @ [CHR 0x0A]
        in (case fmt_Printf line w of (printed, w1) \<Rightarrow> (None, w1)))"

definition fmtProvider_Close :: "fmtProvider \<Rightarrow> Context \<Rightarrow> error" where
  "fmtProvider_Close p ctx = None"

definition NewFmtProvider :: "deps \<Rightarrow> ProviderConfig \<Rightarrow> 'z LoggerProvider" where
  "NewFmtProvider d cfg =
     (let p = \<lparr>config = cfg\<rparr> in
      \<lparr>Write = fmtProvider_Write d p,
       ShouldLog = (\<lambda>ctx level w. (fmtProvider_ShouldLog p ctx level, w)),
       Close = (\<lambda>ctx w. (fmtProvider_Close p ctx, w))\<rparr>)"

section \<open>The logger\<close>

text \<open>
  What a call of a logger method does to its providers and to the process, in the order
  in which it happens: \<open>EvShouldLog i level b\<close>, the provider at position \<open>i\<close> of the
  list was asked \<^verbatim>\<open>ShouldLog\<close> and answered \<open>b\<close>; \<open>EvWrite i level message flds err\<close>,
  its \<^verbatim>\<open>Write\<close> was called with these arguments and returned \<open>err\<close>; \<open>EvLogFatal s\<close>,
  \<^verbatim>\<open>log.Fatal\<close> printed \<open>s\<close> and ended the process with \<^verbatim>\<open>os.Exit(1)\<close>.
\<close>

datatype event =
    EvShouldLog nat Level bool
  | EvWrite nat Level string Fields error
  | EvLogFatal string

text \<open>
  How a method ends for its caller: it returns (the methods return no value), the
  process has exited, or the call panics (\<^verbatim>\<open>err.Error()\<close> on a nil \<^verbatim>\<open>error\<close>).
\<close>

datatype outcome = Returned | Exited | Panicked

text \<open>
  The struct \<^verbatim>\<open>logger\<close>. The model is sequential, so the lock \<^verbatim>\<open>mu\<close>, which
  \<^verbatim>\<open>writeLog\<close> takes for reading and releases on return, has no field.
\<close>

record 'z logger =
  providers :: "'z LoggerProvider list"
  config :: LoggerConfig
  fieldsHandler :: "'z FieldsHandler"


definition NewLogger ::
  "LoggerConfig \<Rightarrow> 'z FieldsHandler \<Rightarrow> 'z LoggerProvider list \<Rightarrow> 'z logger" where
  "NewLogger cfg fh ps = \<lparr>providers = ps, config = cfg, fieldsHandler = fh\<rparr>"

definition extractFieldsFromContext ::
  "'z logger \<Rightarrow> Context \<Rightarrow> Fields \<Rightarrow> 'z world_scheme \<Rightarrow> Fields \<times> 'z world_scheme" where
  "extractFieldsFromContext l ctx flds w =
     ExtractFieldsFromContext (fieldsHandler l) ctx flds w"

definition mergeFields ::
  "'z logger \<Rightarrow> Fields \<Rightarrow> Fields \<Rightarrow> 'z world_scheme \<Rightarrow> Fields \<times> 'z world_scheme" where
  "mergeFields l fields1 fields2 w = MergeFields (fieldsHandler l) fields1 fields2 w"

text \<open>
  The loop of \<^verbatim>\<open>writeLog\<close> over the providers that remain, the first of them at
  position \<open>i\<close> of the logger's list. The error \<^verbatim>\<open>Write\<close> returns is dropped.
\<close>

fun writeLog_range ::
  "'z LoggerProvider list \<Rightarrow> nat \<Rightarrow> Context \<Rightarrow> Level \<Rightarrow> string \<Rightarrow> Fields \<Rightarrow>
     'z world_scheme \<Rightarrow> event list \<times> 'z world_scheme" where
  "writeLog_range [] i ctx level message allFields w = ([], w)"
| "writeLog_range (provider # rest) i ctx level message allFields w =
     (case ShouldLog provider ctx level w of (ok, w1) \<Rightarrow>
        if ok then
          (case Write provider ctx level message allFields w1 of (err, w2) \<Rightarrow>
             (case writeLog_range rest (Suc i) ctx level message allFields w2 of (tr, w3) \<Rightarrow>
                (EvShouldLog i level True # EvWrite i level message allFields err # tr, w3)))
        else
          (case writeLog_range rest (Suc i) ctx level message allFields w1 of (tr, w3) \<Rightarrow>
             (EvShouldLog i level False # tr, w3)))"

definition writeLog ::
  "'z logger \<Rightarrow> Context \<Rightarrow> Level \<Rightarrow> string \<Rightarrow> Fields \<Rightarrow> 'z world_scheme \<Rightarrow>
     event list \<times> 'z world_scheme" where
  "writeLog l ctx level message flds w =
     (case extractFieldsFromContext l ctx flds w of (allFields, w1) \<Rightarrow>
        writeLog_range (providers l) 0 ctx level message allFields w1)"

subsection \<open>The twenty logging methods\<close>

type_synonym 'z result = "outcome \<times> event list \<times> 'z world_scheme"

definition Debug ::
  "deps \<Rightarrow> 'z logger \<Rightarrow> Context \<Rightarrow> string \<Rightarrow> Value list \<Rightarrow> 'z world_scheme \<Rightarrow> 'z result" where
  "Debug d l ctx format args w =
     (let message = Sprintf d format args in
      case writeLog l ctx LevelDebug message None w of (tr, w1) \<Rightarrow> (Returned, tr, w1))"

definition Info ::
  "deps \<Rightarrow> 'z logger \<Rightarrow> Context \<Rightarrow> string \<Rightarrow> Value list \<Rightarrow> 'z world_scheme \<Rightarrow> 'z result" where
  "Info d l ctx format args w =
     (let message = Sprintf d format args in
      case writeLog l ctx LevelInfo message None w of (tr, w1) \<Rightarrow> (Returned, tr, w1))"

definition Warning ::
  "deps \<Rightarrow> 'z logger \<Rightarrow> Context \<Rightarrow> string \<Rightarrow> Value list \<Rightarrow> 'z world_scheme \<Rightarrow> 'z result" where
  "Warning d l ctx format args w =
     (let message = Sprintf d format args in
      case writeLog l ctx LevelWarn message None w of (tr, w1) \<Rightarrow> (Returned, tr, w1))"

definition Error ::
  "deps \<Rightarrow> 'z logger \<Rightarrow> Context \<Rightarrow> string \<Rightarrow> Value list \<Rightarrow> 'z world_scheme \<Rightarrow> 'z result" where
  "Error d l ctx format args w =
     (let message = Sprintf d format args in
      case writeLog l ctx LevelError message None w of (tr, w1) \<Rightarrow> (Returned, tr, w1))"

definition Fatal ::
  "deps \<Rightarrow> 'z logger \<Rightarrow> Context \<Rightarrow> string \<Rightarrow> Value list \<Rightarrow> 'z world_scheme \<Rightarrow> 'z result" where
  "Fatal d l ctx format args w =
     (let message = Sprintf d format args in
      case writeLog l ctx LevelFatal message None w of (tr, w1) \<Rightarrow>
        (Exited, tr @ [EvLogFatal message], w1))"

text \<open>
  The methods with an \<^verbatim>\<open>error\<close> argument call \<^verbatim>\<open>err.Error()\<close>, which panics on a nil
  \<^verbatim>\<open>error\<close>, before anything is written.
\<close>

definition DebugErr ::
  "deps \<Rightarrow> 'z logger \<Rightarrow> Context \<Rightarrow> error \<Rightarrow> string \<Rightarrow> Value list \<Rightarrow> 'z world_scheme \<Rightarrow>
     'z result" where
  "DebugErr d l ctx err format args w =
     (let message = Sprintf d format args in
      case err of
        None \<Rightarrow> (Panicked, [], w)
      | Some e \<Rightarrow>
          (case Fields_literal ''error'' (VString e) w of (flds, w1) \<Rightarrow>
             (case writeLog l ctx LevelDebug message flds w1 of (tr, w2) \<Rightarrow>
                (Returned, tr, w2))))"

definition InfoErr ::
  "deps \<Rightarrow> 'z logger \<Rightarrow> Context \<Rightarrow> error \<Rightarrow> string \<Rightarrow> Value list \<Rightarrow> 'z world_scheme \<Rightarrow>
     'z result" where
  "InfoErr d l ctx err format args w =
     (let message = Sprintf d format args in
      case err of
        None \<Rightarrow> (Panicked, [], w)
      | Some e \<Rightarrow>
          (case Fields_literal ''error'' (VString e) w of (flds, w1) \<Rightarrow>
             (case writeLog l ctx LevelInfo message flds w1 of (tr, w2) \<Rightarrow>
                (Returned, tr, w2))))"

definition WarningErr ::
  "deps \<Rightarrow> 'z logger \<Rightarrow> Context \<Rightarrow> error \<Rightarrow> string \<Rightarrow> Value list \<Rightarrow> 'z world_scheme \<Rightarrow>
     'z result" where
  "WarningErr d l ctx err format args w =
     (let message = Sprintf d format args in
      case err of
        None \<Rightarrow> (Panicked, [], w)
      | Some e \<Rightarrow>
          (case Fields_literal ''error'' (VString e) w of (flds, w1) \<Rightarrow>
             (case writeLog l ctx LevelWarn message flds w1 of (tr, w2) \<Rightarrow>
                (Returned, tr, w2))))"

definition ErrorErr ::
  "deps \<Rightarrow> 'z logger \<Rightarrow> Context \<Rightarrow> error \<Rightarrow> string \<Rightarrow> Value list \<Rightarrow> 'z world_scheme \<Rightarrow>
     'z result" where
  "ErrorErr d l ctx err format args w =
     (let message = Sprintf d format args in
      case err of
        None \<Rightarrow> (Panicked, [], w)
      | Some e \<Rightarrow>
          (case Fields_literal ''error'' (VString e) w of (flds, w1) \<Rightarrow>
             (case writeLog l ctx LevelError message flds w1 of (tr, w2) \<Rightarrow>
                (Returned, tr, w2))))"

definition FatalErr ::
  "deps \<Rightarrow> 'z logger \<Rightarrow> Context \<Rightarrow> error \<Rightarrow> string \<Rightarrow> Value list \<Rightarrow> 'z world_scheme \<Rightarrow>
     'z result" where
  "FatalErr d l ctx err format args w =
     (let message = Sprintf d format args in
      case err of
        None \<Rightarrow> (Panicked, [], w)
      | Some e \<Rightarrow>
          (case Fields_literal ''error'' (VString e) w of (flds, w1) \<Rightarrow>
             (case writeLog l ctx LevelFatal message flds w1 of (tr, w2) \<Rightarrow>
                (Exited, tr @ [EvLogFatal (message @ '': '' @ e)], w2))))"

definition DebugWithFields ::
  "deps \<Rightarrow> 'z logger \<Rightarrow> Context \<Rightarrow> Fields \<Rightarrow> string \<Rightarrow> Value list \<Rightarrow> 'z world_scheme \<Rightarrow>
     'z result" where
  "DebugWithFields d l ctx flds format args w =
     (let message = Sprintf d format args in
      case writeLog l ctx LevelDebug message flds w of (tr, w1) \<Rightarrow> (Returned, tr, w1))"

definition InfoWithFields ::
  "deps \<Rightarrow> 'z logger \<Rightarrow> Context \<Rightarrow> Fields \<Rightarrow> string \<Rightarrow> Value list \<Rightarrow> 'z world_scheme \<Rightarrow>
     'z result" where
  "InfoWithFields d l ctx flds format args w =
     (let message = Sprintf d format args in
      case writeLog l ctx LevelInfo message flds w of (tr, w1) \<Rightarrow> (Returned, tr, w1))"

definition WarningWithFields ::
  "deps \<Rightarrow> 'z logger \<Rightarrow> Context \<Rightarrow> Fields \<Rightarrow> string \<Rightarrow> Value list \<Rightarrow> 'z world_scheme \<Rightarrow>
     'z result" where
  "WarningWithFields d l ctx flds format args w =
     (let message = Sprintf d format args in
      case writeLog l ctx LevelWarn message flds w of (tr, w1) \<Rightarrow> (Returned, tr, w1))"

definition ErrorWithFields ::
  "deps \<Rightarrow> 'z logger \<Rightarrow> Context \<Rightarrow> Fields \<Rightarrow> string \<Rightarrow> Value list \<Rightarrow> 'z world_scheme \<Rightarrow>
     'z result" where
  "ErrorWithFields d l ctx flds format args w =
     (let message = Sprintf d format args in
      case writeLog l ctx LevelError message flds w of (tr, w1) \<Rightarrow> (Returned, tr, w1))"

definition FatalWithFields ::
  "deps \<Rightarrow> 'z logger \<Rightarrow> Context \<Rightarrow> Fields \<Rightarrow> string \<Rightarrow> Value list \<Rightarrow> 'z world_scheme \<Rightarrow>
     'z result" where
  "FatalWithFields d l ctx flds format args w =
     (let message = Sprintf d format args in
      case writeLog l ctx LevelFatal message flds w of (tr, w1) \<Rightarrow> (Exited, tr @ [EvLogFatal message], w1))"

definition DebugErrWithFields ::
  "deps \<Rightarrow> 'z logger \<Rightarrow> Context \<Rightarrow> error \<Rightarrow> Fields \<Rightarrow> string \<Rightarrow> Value list \<Rightarrow>
     'z world_scheme \<Rightarrow> 'z result" where
  "DebugErrWithFields d l ctx err flds format args w =
     (let message = Sprintf d format args in
      case err of
        None \<Rightarrow> (Panicked, [], w)
      | Some e \<Rightarrow>
          (case Fields_literal ''error'' (VString e) w of (errFields, w1) \<Rightarrow>
             (case mergeFields l flds errFields w1 of (allFields, w2) \<Rightarrow>
                (case writeLog l ctx LevelDebug message allFields w2 of (tr, w3) \<Rightarrow>
                   (Returned, tr, w3)))))"

definition InfoErrWithFields ::
  "deps \<Rightarrow> 'z logger \<Rightarrow> Context \<Rightarrow> error \<Rightarrow> Fields \<Rightarrow> string \<Rightarrow> Value list \<Rightarrow>
     'z world_scheme \<Rightarrow> 'z result" where
  "InfoErrWithFields d l ctx err flds format args w =
     (let message = Sprintf d format args in
      case err of
        None \<Rightarrow> (Panicked, [], w)
      | Some e \<Rightarrow>
          (case Fields_literal ''error'' (VString e) w of (errFields, w1) \<Rightarrow>
             (case mergeFields l flds errFields w1 of (allFields, w2) \<Rightarrow>
                (case writeLog l ctx LevelInfo message allFields w2 of (tr, w3) \<Rightarrow>
                   (Returned, tr, w3)))))"

definition WarningErrWithFields ::
  "deps \<Rightarrow> 'z logger \<Rightarrow> Context \<Rightarrow> error \<Rightarrow> Fields \<Rightarrow> string \<Rightarrow> Value list \<Rightarrow>
     'z world_scheme \<Rightarrow> 'z result" where
  "WarningErrWithFields d l ctx err flds format args w =
     (let message = Sprintf d format args in
      case err of
        None \<Rightarrow> (Panicked, [], w)
      | Some e \<Rightarrow>
          (case Fields_literal ''error'' (VString e) w of (errFields, w1) \<Rightarrow>
             (case mergeFields l flds errFields w1 of (allFields, w2) \<Rightarrow>
                (case writeLog l ctx LevelWarn message allFields w2 of (tr, w3) \<Rightarrow>
                   (Returned, tr, w3)))))"

definition ErrorErrWithFields ::
  "deps \<Rightarrow> 'z logger \<Rightarrow> Context \<Rightarrow> error \<Rightarrow> Fields \<Rightarrow> string \<Rightarrow> Value list \<Rightarrow>
     'z world_scheme \<Rightarrow> 'z result" where
  "ErrorErrWithFields d l ctx err flds format args w =
     (let message = Sprintf d format args in
      case err of
        None \<Rightarrow> (Panicked, [], w)
      | Some e \<Rightarrow>
          (case Fields_literal ''error'' (VString e) w of (errFields, w1) \<Rightarrow>
             (case mergeFields l flds errFields w1 of (allFields, w2) \<Rightarrow>
                (case writeLog l ctx LevelError message allFields w2 of (tr, w3) \<Rightarrow>
                   (Returned, tr, w3)))))"

definition FatalErrWithFields ::
  "deps \<Rightarrow> 'z logger \<Rightarrow> Context \<Rightarrow> error \<Rightarrow> Fields \<Rightarrow> string \<Rightarrow> Value list \<Rightarrow>
     'z world_scheme \<Rightarrow> 'z result" where
  "FatalErrWithFields d l ctx err flds format args w =
     (let message = Sprintf d format args in
      case err of
        None \<Rightarrow> (Panicked, [], w)
      | Some e \<Rightarrow>
          (case Fields_literal ''error'' (VString e) w of (errFields, w1) \<Rightarrow>
             (case mergeFields l flds errFields w1 of (allFields, w2) \<Rightarrow>
                (case writeLog l ctx LevelFatal message allFields w2 of (tr, w3) \<Rightarrow>
                   (Exited, tr @ [EvLogFatal (message @ '': '' @ e)], w3)))))"

subsection \<open>The interface Logger\<close>

text \<open>
  The interface \<^verbatim>\<open>Logger\<close> lists the twenty methods. A call through the interface names
  one of them; a method takes from the arguments \<open>err\<close> and \<open>flds\<close> those its signature
  has.
\<close>

datatype logmethod =
    M_Debug | M_Info | M_Warning | M_Error | M_Fatal
  | M_DebugErr | M_InfoErr | M_WarningErr | M_ErrorErr | M_FatalErr
  | M_DebugWithFields | M_InfoWithFields | M_WarningWithFields | M_ErrorWithFields
  | M_FatalWithFields
  | M_DebugErrWithFields | M_InfoErrWithFields | M_WarningErrWithFields
  | M_ErrorErrWithFields | M_FatalErrWithFields

fun Logger_call ::
  "deps \<Rightarrow> 'z logger \<Rightarrow> logmethod \<Rightarrow> Context \<Rightarrow> error \<Rightarrow> Fields \<Rightarrow> string \<Rightarrow> Value list \<Rightarrow>
     'z world_scheme \<Rightarrow> 'z result" where
  "Logger_call d l M_Debug ctx err flds format args w = Debug d l ctx format args w"
| "Logger_call d l M_Info ctx err flds format args w = Info d l ctx format args w"
| "Logger_call d l M_Warning ctx err flds format args w = Warning d l ctx format args w"
| "Logger_call d l M_Error ctx err flds format args w = Error d l ctx format args w"
| "Logger_call d l M_Fatal ctx err flds format args w = Fatal d l ctx format args w"
| "Logger_call d l M_DebugErr ctx err flds format args w = DebugErr d l ctx err format args w"
| "Logger_call d l M_InfoErr ctx err flds format args w = InfoErr d l ctx err format args w"
| "Logger_call d l M_WarningErr ctx err flds format args w = WarningErr d l ctx err format args w"
| "Logger_call d l M_ErrorErr ctx err flds format args w = ErrorErr d l ctx err format args w"
| "Logger_call d l M_FatalErr ctx err flds format args w = FatalErr d l ctx err format args w"
| "Logger_call d l M_DebugWithFields ctx err flds format args w = DebugWithFields d l ctx flds format args w"
| "Logger_call d l M_InfoWithFields ctx err flds format args w = InfoWithFields d l ctx flds format args w"
| "Logger_call d l M_WarningWithFields ctx err flds format args w = WarningWithFields d l ctx flds format args w"
| "Logger_call d l M_ErrorWithFields ctx err flds format args w = ErrorWithFields d l ctx flds format args w"
| "Logger_call d l M_FatalWithFields ctx err flds format args w = FatalWithFields d l ctx flds format args w"
| "Logger_call d l M_DebugErrWithFields ctx err flds format args w = DebugErrWithFields d l ctx err flds format args w"
| "Logger_call d l M_InfoErrWithFields ctx err flds format args w = InfoErrWithFields d l ctx err flds format args w"
| "Logger_call d l M_WarningErrWithFields ctx err flds format args w = WarningErrWithFields d l ctx err flds format args w"
| "Logger_call d l M_ErrorErrWithFields ctx err flds format args w = ErrorErrWithFields d l ctx err flds format args w"
| "Logger_call d l M_FatalErrWithFields ctx err flds format args w = FatalErrWithFields d l ctx err flds format args w"

definition is_fatal :: "logmethod \<Rightarrow> bool" where
  "is_fatal mth = (mth \<in> {M_Fatal, M_FatalErr, M_FatalWithFields, M_FatalErrWithFields})"

section \<open>The dispatch, turn by turn\<close>

text \<open>
  The dispatch described position by position rather than by the loop: \<open>world_at \<dots> i\<close>
  is the world in which the provider at position \<open>i\<close> is asked \<^verbatim>\<open>ShouldLog\<close>, after every
  provider before it has been asked and, where it answered true, written to; and
  \<open>turn_events \<dots> i\<close> are the calls made on the provider at position \<open>i\<close>: the question,
  with the provider's own answer in that world, and after the answer true the call of
  \<^verbatim>\<open>Write\<close>, with what the provider's own \<^verbatim>\<open>Write\<close> returns.
\<close>

fun world_at ::
  "'z LoggerProvider list \<Rightarrow> Context \<Rightarrow> Level \<Rightarrow> string \<Rightarrow> Fields \<Rightarrow> 'z world_scheme \<Rightarrow> nat \<Rightarrow>
     'z world_scheme" where
  "world_at ps ctx level message af w0 0 = w0"
| "world_at ps ctx level message af w0 (Suc i) =
     (let answer = ShouldLog (ps ! i) ctx level (world_at ps ctx level message af w0 i)
      in if fst answer then snd (Write (ps ! i) ctx level message af (snd answer))
         else snd answer)"

definition turn_events ::
  "'z LoggerProvider list \<Rightarrow> Context \<Rightarrow> Level \<Rightarrow> string \<Rightarrow> Fields \<Rightarrow> 'z world_scheme \<Rightarrow> nat \<Rightarrow>
     event list" where
  "turn_events ps ctx level message af w0 i =
     (let answer = ShouldLog (ps ! i) ctx level (world_at ps ctx level message af w0 i)
      in if fst answer
         then [EvShouldLog i level True,
               EvWrite i level message af
                 (fst (Write (ps ! i) ctx level message af (snd answer)))]
         else [EvShouldLog i level False])"

text \<open>
  The twenty methods by what they have in common: the level a method logs at, and the
  family it belongs to, which decides the fields it hands to \<^verbatim>\<open>writeLog\<close> (\<open>delivered\<close>,
  for an error with the text \<open>e\<close>) and the text a Fatal method gives to \<^verbatim>\<open>log.Fatal\<close>.
\<close>

datatype family = Plain | WithErr | WithFields | WithErrAndFields

fun level_of :: "logmethod \<Rightarrow> Level" where
  "level_of M_Debug = LevelDebug"
| "level_of M_Info = LevelInfo"
| "level_of M_Warning = LevelWarn"
| "level_of M_Error = LevelError"
| "level_of M_Fatal = LevelFatal"
| "level_of M_DebugErr = LevelDebug"
| "level_of M_InfoErr = LevelInfo"
| "level_of M_WarningErr = LevelWarn"
| "level_of M_ErrorErr = LevelError"
| "level_of M_FatalErr = LevelFatal"
| "level_of M_DebugWithFields = LevelDebug"
| "level_of M_InfoWithFields = LevelInfo"
| "level_of M_WarningWithFields = LevelWarn"
| "level_of M_ErrorWithFields = LevelError"
| "level_of M_FatalWithFields = LevelFatal"
| "level_of M_DebugErrWithFields = LevelDebug"
| "level_of M_InfoErrWithFields = LevelInfo"
| "level_of M_WarningErrWithFields = LevelWarn"
| "level_of M_ErrorErrWithFields = LevelError"
| "level_of M_FatalErrWithFields = LevelFatal"

fun family_of :: "logmethod \<Rightarrow> family" where
  "family_of M_Debug = Plain"
| "family_of M_Info = Plain"
| "family_of M_Warning = Plain"
| "family_of M_Error = Plain"
| "family_of M_Fatal = Plain"
| "family_of M_DebugErr = WithErr"
| "family_of M_InfoErr = WithErr"
| "family_of M_WarningErr = WithErr"
| "family_of M_ErrorErr = WithErr"
| "family_of M_FatalErr = WithErr"
| "family_of M_DebugWithFields = WithFields"
| "family_of M_InfoWithFields = WithFields"
| "family_of M_WarningWithFields = WithFields"
| "family_of M_ErrorWithFields = WithFields"
| "family_of M_FatalWithFields = WithFields"
| "family_of M_DebugErrWithFields = WithErrAndFields"
| "family_of M_InfoErrWithFields = WithErrAndFields"
| "family_of M_WarningErrWithFields = WithErrAndFields"
| "family_of M_ErrorErrWithFields = WithErrAndFields"
| "family_of M_FatalErrWithFields = WithErrAndFields"

definition takes_error :: "logmethod \<Rightarrow> bool" where
  "takes_error mth = (family_of mth = WithErr \<or> family_of mth = WithErrAndFields)"

fun delivered ::
  "'z logger \<Rightarrow> family \<Rightarrow> string \<Rightarrow> Fields \<Rightarrow> 'z world_scheme \<Rightarrow> Fields \<times> 'z world_scheme" where
  "delivered l Plain e flds w = (None, w)"
| "delivered l WithFields e flds w = (flds, w)"
| "delivered l WithErr e flds w = Fields_literal ''error'' (VString e) w"
| "delivered l WithErrAndFields e flds w =
     (case Fields_literal ''error'' (VString e) w of (errFields, w1) \<Rightarrow>
        mergeFields l flds errFields w1)"

fun fatal_text :: "family \<Rightarrow> string \<Rightarrow> string \<Rightarrow> string" where
  "fatal_text Plain message e = message"
| "fatal_text WithFields message e = message"
| "fatal_text WithErr message e = message @ '': '' @ e"
| "fatal_text WithErrAndFields message e = message @ '': '' @ e"

section \<open>Reading a trace\<close>

text \<open>
  The positions of the providers that were asked \<^verbatim>\<open>ShouldLog\<close>, of those that answered
  true, and of those whose \<^verbatim>\<open>Write\<close> was called, each in the order of the calls; and the
  messages of the calls of \<^verbatim>\<open>log.Fatal\<close>.
\<close>

fun asked :: "event list \<Rightarrow> nat list" where
  "asked [] = []"
| "asked (EvShouldLog i level b # tr) = i # asked tr"
| "asked (e # tr) = asked tr"

fun admitted :: "event list \<Rightarrow> nat list" where
  "admitted [] = []"
| "admitted (EvShouldLog i level b # tr) = (if b then i # admitted tr else admitted tr)"
| "admitted (e # tr) = admitted tr"

fun written :: "event list \<Rightarrow> nat list" where
  "written [] = []"
| "written (EvWrite i level message flds err # tr) = i # written tr"
| "written (e # tr) = written tr"

fun fatal_exits :: "event list \<Rightarrow> string list" where
  "fatal_exits [] = []"
| "fatal_exits (EvLogFatal s # tr) = s # fatal_exits tr"
| "fatal_exits (e # tr) = fatal_exits tr"

section \<open>Concrete inputs\<close>

text \<open>
  A trace key, a formatter that returns its template and an escaping that changes
  nothing; a store of five map objects; a context that carries the trace identifier
  \<open>T\<close>; a provider that accepts every level and whose \<^verbatim>\<open>Write\<close> always fails.
\<close>

definition example_deps :: deps where
  "example_deps =
     \<lparr>TraceIDKey = CtxKey ''trace_id'', Sprintf = (\<lambda>format args. format),
      quote_body = (\<lambda>s. s)\<rparr>"

definition example_world :: world where
  "example_world =
     \<lparr>heap = [[''a'' \<mapsto> VOther ''1'', ''b'' \<mapsto> VOther ''2''],
              [''b'' \<mapsto> VOther ''3'', ''c'' \<mapsto> VOther ''4''],
              [''trace_id'' \<mapsto> VString ''OLD''],
              [''user'' \<mapsto> VString ''bob''],
              [''error'' \<mapsto> VOther ''stale'', ''user'' \<mapsto> VString ''bob'']],
      stdout = [],
      stdout_err = None,
      now = ''2025-11-29 10:00:00'',
      range_order = (\<lambda>m. filter (\<lambda>k. m k \<noteq> None) [''a'', ''b'', ''c'', ''user'', ''error'', ''trace_id''])\<rparr>"


definition example_ctx :: Context where
  "example_ctx = Some (\<lambda>k. if k = CtxKey ''trace_id'' then Some (VString ''T'') else None)"

definition failing_provider :: "unit LoggerProvider" where
  "failing_provider =
     \<lparr>Write = (\<lambda>ctx level message flds w. (Some ''write failed'', w)),
      ShouldLog = (\<lambda>ctx level w. (True, w)),
      Close = (\<lambda>ctx w. (None, w))\<rparr>"

definition failing_logger :: "unit logger" where
  "failing_logger =
     NewLogger () (NewFieldsHandler example_deps) [failing_provider, failing_provider]"

definition example_logger :: "unit logger" where
  "example_logger =
     NewLogger () (NewFieldsHandler example_deps)
       [failing_provider,
        NewFmtProvider example_deps \<lparr>LoggerConfig = (), Level = LevelError\<rparr>,
        failing_provider]"

section \<open>Facts about the store and the concrete inputs\<close>

lemma Fields_literal_eq:
  "Fields_literal k v w = (Some (length (heap w)), w\<lparr>heap := heap w @ [[k \<mapsto> v]]\<rparr>)"
  by (simp add: Fields_literal_def make_Fields_def map_assign_def)

lemma example_allocated: "a < 5 \<Longrightarrow> allocated example_world (Some a)"
  by (simp add: example_world_def allocated_def)

lemma example_deref:
  "deref example_world (Some 0) = [''a'' \<mapsto> VOther ''1'', ''b'' \<mapsto> VOther ''2'']"
  "deref example_world (Some 1) = [''b'' \<mapsto> VOther ''3'', ''c'' \<mapsto> VOther ''4'']"
  "deref example_world (Some (Suc 0)) = [''b'' \<mapsto> VOther ''3'', ''c'' \<mapsto> VOther ''4'']"
  "deref example_world (Some 2) = [''trace_id'' \<mapsto> VString ''OLD'']"
  "deref example_world (Some 3) = [''user'' \<mapsto> VString ''bob'']"
  "deref example_world (Some 4) = [''error'' \<mapsto> VOther ''stale'', ''user'' \<mapsto> VString ''bob'']"
  by (simp_all add: example_world_def deref_def)

lemma example_logger_providers:
  "length (providers example_logger) = 3"
  "providers example_logger ! 0 = failing_provider"
  "ExtractFieldsFromContext (fieldsHandler example_logger) None None example_world
     = (None, example_world)"
  by (simp_all add: example_logger_def NewLogger_def NewFieldsHandler_def
      fieldsHandler_ExtractFieldsFromContext_def)

section \<open>The fields handler\<close>

text \<open>
  C5. \<^verbatim>\<open>ExtractFieldsFromContext\<close> with a nil context returns the fields it was given
  and leaves the world as it is. With a context that carries a string under
  \<^verbatim>\<open>TraceIDKey\<close>, it returns a map object that did not exist before, whose contents are
  those of the argument with \<open>trace_id\<close> set to the context's string (replacing an entry
  the argument has under that key); every map object that existed before, the argument
  among them, is unchanged.
\<close>

theorem ExtractFieldsFromContext_nil_and_trace_id:
  "fieldsHandler_ExtractFieldsFromContext d None f w = (f, w) \<and>
   (allocated w f \<and> c (TraceIDKey d) = Some (VString t) \<longrightarrow>
      (\<exists>r w'. fieldsHandler_ExtractFieldsFromContext d (Some c) f w = (Some r, w')
         \<and> \<not> allocated w (Some r) \<and> allocated w' (Some r)
         \<and> deref w' (Some r) = (deref w f)(''trace_id'' \<mapsto> VString t)
         \<and> take (length (heap w)) (heap w') = heap w
         \<and> deref w' f = deref w f
         \<and> stdout w' = stdout w))"
proof (cases f)
  case None
  then show ?thesis
    by (simp add: fieldsHandler_ExtractFieldsFromContext_def make_Fields_def maps_Copy_def
        map_assign_def Let_def deref_def allocated_def)
next
  case (Some a)
  then show ?thesis
    by (auto simp: fieldsHandler_ExtractFieldsFromContext_def make_Fields_def maps_Copy_def
        map_assign_def Let_def deref_def allocated_def nth_append)
qed

theorem ExtractFieldsFromContext_nil_and_trace_id_witness:
  "fieldsHandler_ExtractFieldsFromContext example_deps None (Some 2) example_world
     = (Some 2, example_world) \<and>
   (\<exists>r w'. fieldsHandler_ExtractFieldsFromContext example_deps example_ctx (Some 2) example_world
              = (Some r, w')
         \<and> \<not> allocated example_world (Some r) \<and> allocated w' (Some r)
         \<and> deref w' (Some r) = [''trace_id'' \<mapsto> VString ''T'']
         \<and> deref w' (Some 2) = [''trace_id'' \<mapsto> VString ''OLD''])"
proof -
  let ?c = "\<lambda>k. if k = CtxKey ''trace_id'' then Some (VString ''T'') else None"
  have ctx: "example_ctx = Some ?c"
    by (simp add: example_ctx_def)
  have h: "allocated example_world (Some 2) \<and> ?c (TraceIDKey example_deps) = Some (VString ''T'')"
    by (simp add: example_allocated example_deps_def)
  show ?thesis
    using ExtractFieldsFromContext_nil_and_trace_id
            [of example_deps "Some 2" example_world ?c "''T''"] h
    unfolding ctx by (simp add: example_deref) blast
qed

text \<open>
  C6. \<^verbatim>\<open>MergeFields\<close> returns a map object that did not exist before. Its contents are
  those of \<open>base\<close> with those of \<open>overlay\<close> stored on top: under every key the overlay's
  entry when it has one, the base's otherwise. Every map object that existed before, both
  arguments among them, is unchanged. The result is never nil, and it is empty when both
  arguments are empty or nil.
\<close>

theorem MergeFields_overlay_wins:
  assumes "allocated w base" and "allocated w overlay"
  shows "\<exists>r w'. fieldsHandler_MergeFields base overlay w = (Some r, w')
     \<and> \<not> allocated w (Some r) \<and> allocated w' (Some r)
     \<and> deref w' (Some r) = deref w base ++ deref w overlay
     \<and> (\<forall>k. deref w' (Some r) k =
              (case deref w overlay k of Some v \<Rightarrow> Some v | None \<Rightarrow> deref w base k))
     \<and> (deref w base = Map.empty \<and> deref w overlay = Map.empty
          \<longrightarrow> deref w' (Some r) = Map.empty)
     \<and> take (length (heap w)) (heap w') = heap w
     \<and> deref w' base = deref w base \<and> deref w' overlay = deref w overlay
     \<and> stdout w' = stdout w"
  using assms
  by (cases base; cases overlay)
     (auto simp: fieldsHandler_MergeFields_def make_Fields_def maps_Copy_def Let_def
        deref_def allocated_def nth_append map_add_def split: option.splits)

theorem MergeFields_overlay_wins_witness:
  "\<exists>r w'. fieldsHandler_MergeFields (Some 0) (Some 1) example_world = (Some r, w')
     \<and> \<not> allocated example_world (Some r)
     \<and> deref w' (Some r) = [''a'' \<mapsto> VOther ''1'', ''b'' \<mapsto> VOther ''3'', ''c'' \<mapsto> VOther ''4'']
     \<and> deref w' (Some 0) = [''a'' \<mapsto> VOther ''1'', ''b'' \<mapsto> VOther ''2'']
     \<and> deref w' (Some 1) = [''b'' \<mapsto> VOther ''3'', ''c'' \<mapsto> VOther ''4'']"
proof -
  have m: "[''a'' \<mapsto> VOther ''1'', ''b'' \<mapsto> VOther ''2''] ++ [''b'' \<mapsto> VOther ''3'', ''c'' \<mapsto> VOther ''4'']
      = [''a'' \<mapsto> VOther ''1'', ''b'' \<mapsto> VOther ''3'', ''c'' \<mapsto> VOther ''4'']"
    by (auto simp: fun_eq_iff map_add_def)
  obtain r w' where
    "fieldsHandler_MergeFields (Some 0) (Some 1) example_world = (Some r, w')"
    "\<not> allocated example_world (Some r)"
    "deref w' (Some r) = deref example_world (Some 0) ++ deref example_world (Some 1)"
    "deref w' (Some 0) = deref example_world (Some 0)"
    "deref w' (Some 1) = deref example_world (Some 1)"
    using MergeFields_overlay_wins [of example_world "Some 0" "Some 1"] example_allocated
    by auto
  then show ?thesis
    by (simp add: example_deref m)
qed

section \<open>The console provider\<close>

lemma levels_ordered:
  "LevelDebug < LevelInfo \<and> LevelInfo < LevelWarn \<and> LevelWarn < LevelError \<and>
   LevelError < LevelFatal"
  by (simp add: LevelDebug_def LevelInfo_def LevelWarn_def LevelError_def LevelFatal_def)

lemma levelStr_table:
  "levelStr LevelDebug = ''debug''" "levelStr LevelInfo = ''info''"
  "levelStr LevelWarn = ''warning''" "levelStr LevelError = ''error''"
  "levelStr LevelFatal = ''critical''"
  by (simp_all add: levelStr_def LevelDebug_def LevelInfo_def LevelWarn_def LevelError_def
      LevelFatal_def)

lemma stdout_append_neq: "w\<lparr>stdout := stdout w @ [x]\<rparr> \<noteq> w"
proof
  assume "w\<lparr>stdout := stdout w @ [x]\<rparr> = w"
  then have "stdout (w\<lparr>stdout := stdout w @ [x]\<rparr>) = stdout w" by simp
  then show False by simp
qed

text \<open>
  C7. The console provider's \<^verbatim>\<open>ShouldLog\<close> answers true exactly for the levels at or
  above the configured minimum, whatever the context, and changes nothing; its
  \<^verbatim>\<open>Write\<close> prints exactly for those levels. The five levels are ordered
  Debug < Info < Warn < Error < Fatal.
\<close>

theorem ShouldLog_iff_at_or_above_minimum:
  "fmtProvider_ShouldLog \<lparr>fmtProvider.config = cfg\<rparr> ctx a = (Level cfg \<le> a)
   \<and> ShouldLog (NewFmtProvider d cfg) ctx a w = (Level cfg \<le> a, w)
   \<and> (snd (Write (NewFmtProvider d cfg) ctx a message flds w) \<noteq> w) = (Level cfg \<le> a)
   \<and> LevelDebug < LevelInfo \<and> LevelInfo < LevelWarn \<and> LevelWarn < LevelError
   \<and> LevelError < LevelFatal"
  using levels_ordered
  by (simp add: fmtProvider_ShouldLog_def NewFmtProvider_def fmtProvider_Write_def fmt_Printf_def Let_def
      stdout_append_neq)

section \<open>The dispatch loop\<close>

lemma upt_offset_Cons: "[i..<Suc (i + n)] = i # [Suc i..<Suc (i + n)]"
  by (simp add: upt_conv_Cons del: upt_Suc)

lemma writeLog_range_step:
  "fst (writeLog_range (p # ps) i ctx level message af w) =
     (if fst (ShouldLog p ctx level w) then
        EvShouldLog i level True #
        EvWrite i level message af (fst (Write p ctx level message af (snd (ShouldLog p ctx level w)))) #
        fst (writeLog_range ps (Suc i) ctx level message af
               (snd (Write p ctx level message af (snd (ShouldLog p ctx level w)))))
      else
        EvShouldLog i level False #
        fst (writeLog_range ps (Suc i) ctx level message af (snd (ShouldLog p ctx level w))))"
  by (simp add: case_prod_unfold)

lemma asked_writeLog_range:
  "asked (fst (writeLog_range ps i ctx level message af w)) = [i..<i + length ps]"
proof (induction ps arbitrary: i w)
  case Nil
  then show ?case by simp
next
  case (Cons p ps)
  then show ?case
    by (simp add: writeLog_range_step upt_offset_Cons del: writeLog_range.simps upt_Suc)
qed

lemma written_admitted_writeLog_range:
  "written (fst (writeLog_range ps i ctx level message af w))
     = admitted (fst (writeLog_range ps i ctx level message af w))"
proof (induction ps arbitrary: i w)
  case Nil
  then show ?case by simp
next
  case (Cons p ps)
  then show ?case
    by (simp add: writeLog_range_step del: writeLog_range.simps)
qed

lemma ShouldLog_event_asked: "EvShouldLog j lv b \<in> set tr \<Longrightarrow> j \<in> set (asked tr)"
  by (induction tr rule: asked.induct) auto

lemma admitted_filter_writeLog_range:
  "admitted (fst (writeLog_range ps i ctx level message af w))
     = filter (\<lambda>j. EvShouldLog j level True \<in> set (fst (writeLog_range ps i ctx level message af w)))
         [i..<i + length ps]"
proof (induction ps arbitrary: i w)
  case Nil
  then show ?case by simp
next
  case (Cons p ps)
  define ok where "ok = fst (ShouldLog p ctx level w)"
  define w1 where "w1 = snd (ShouldLog p ctx level w)"
  define err where "err = fst (Write p ctx level message af w1)"
  define wn where "wn = (if ok then snd (Write p ctx level message af w1) else w1)"
  define tr where "tr = fst (writeLog_range ps (Suc i) ctx level message af wn)"
  define hd where "hd = EvShouldLog i level ok # (if ok then [EvWrite i level message af err] else [])"
  have whole: "fst (writeLog_range (p # ps) i ctx level message af w) = hd @ tr"
    by (simp add: writeLog_range_step ok_def w1_def err_def wn_def tr_def hd_def
        del: writeLog_range.simps)
  have notin: "EvShouldLog i level b \<notin> set tr" for b
  proof
    assume "EvShouldLog i level b \<in> set tr"
    then have "i \<in> set (asked tr)" by (rule ShouldLog_event_asked)
    then show False by (auto simp: tr_def asked_writeLog_range)
  qed
  have IH: "admitted tr = filter (\<lambda>j. EvShouldLog j level True \<in> set tr) [Suc i..<Suc i + length ps]"
    unfolding tr_def by (rule Cons.IH)
  have tl: "filter (\<lambda>j. EvShouldLog j level True \<in> set (hd @ tr)) [Suc i..<Suc i + length ps]
      = filter (\<lambda>j. EvShouldLog j level True \<in> set tr) [Suc i..<Suc i + length ps]"
    by (rule filter_cong) (auto simp: hd_def)
  have adm: "admitted (hd @ tr) = (if ok then i # admitted tr else admitted tr)"
    by (simp add: hd_def)
  have here: "EvShouldLog i level True \<in> set (hd @ tr) \<longleftrightarrow> ok"
    using notin by (auto simp: hd_def)
  have "filter (\<lambda>j. EvShouldLog j level True \<in> set (hd @ tr)) [i..<i + length (p # ps)]
      = (if ok then i # admitted tr else admitted tr)"
    using here tl IH by (simp add: upt_offset_Cons del: upt_Suc set_append)
  then show ?case
    unfolding whole adm by simp
qed

lemma refused_not_admitted_writeLog_range:
  "EvShouldLog j level False \<in> set (fst (writeLog_range ps i ctx level message af w))
     \<Longrightarrow> EvShouldLog j level True \<notin> set (fst (writeLog_range ps i ctx level message af w))"
proof (induction ps arbitrary: i w)
  case Nil
  then show ?case by simp
next
  case (Cons p ps)
  have notin: "EvShouldLog i level b \<notin> set (fst (writeLog_range ps (Suc i) ctx level message af w'))" for b w'
  proof
    assume "EvShouldLog i level b \<in> set (fst (writeLog_range ps (Suc i) ctx level message af w'))"
    then have "i \<in> set (asked (fst (writeLog_range ps (Suc i) ctx level message af w')))"
      by (rule ShouldLog_event_asked)
    then show False by (auto simp: asked_writeLog_range)
  qed
  show ?case
  proof (cases "fst (ShouldLog p ctx level w)")
    case True
    with Cons.prems Cons.IH notin show ?thesis
      by (auto simp: writeLog_range_step simp del: writeLog_range.simps)
  next
    case False
    with Cons.prems Cons.IH notin show ?thesis
      by (auto simp: writeLog_range_step simp del: writeLog_range.simps)
  qed
qed

lemma asked_append: "asked (xs @ ys) = asked xs @ asked ys"
  by (induction xs rule: asked.induct) simp_all

lemma admitted_append: "admitted (xs @ ys) = admitted xs @ admitted ys"
  by (induction xs rule: admitted.induct) auto

lemma written_append: "written (xs @ ys) = written xs @ written ys"
  by (induction xs rule: written.induct) simp_all

lemma writeLog_range_turns:
  "writeLog_range rest (length pre) ctx level message af
       (world_at (pre @ rest) ctx level message af w0 (length pre))
     = (concat (map (turn_events (pre @ rest) ctx level message af w0)
                  [length pre..<length pre + length rest]),
        world_at (pre @ rest) ctx level message af w0 (length pre + length rest))"
proof (induction rest arbitrary: pre)
  case Nil
  then show ?case by simp
next
  case (Cons p rest)
  let ?ps = "pre @ p # rest"
  let ?k = "length pre"
  let ?wk = "world_at ?ps ctx level message af w0 ?k"
  have nth: "?ps ! ?k = p" by simp
  have IH: "writeLog_range rest (Suc ?k) ctx level message af
       (world_at ?ps ctx level message af w0 (Suc ?k))
     = (concat (map (turn_events ?ps ctx level message af w0)
                  [Suc ?k..<Suc ?k + length rest]),
        world_at ?ps ctx level message af w0 (Suc ?k + length rest))"
    using Cons.IH [of "pre @ [p]"] by simp
  have up: "[?k..<?k + length (p # rest)] = ?k # [Suc ?k..<Suc ?k + length rest]"
    by (simp add: upt_conv_Cons del: upt_Suc)
  show ?case
  proof (cases "fst (ShouldLog p ctx level ?wk)")
    case True
    then have nxt: "world_at ?ps ctx level message af w0 (Suc ?k)
        = snd (Write p ctx level message af (snd (ShouldLog p ctx level ?wk)))"
      by (simp add: Let_def)
    have ev: "turn_events ?ps ctx level message af w0 ?k
        = [EvShouldLog ?k level True,
           EvWrite ?k level message af
             (fst (Write p ctx level message af (snd (ShouldLog p ctx level ?wk))))]"
      using True by (simp add: turn_events_def Let_def)
    show ?thesis
      unfolding up using True IH
      by (simp add: case_prod_unfold nxt [symmetric] ev del: world_at.simps upt_Suc)
  next
    case False
    then have nxt: "world_at ?ps ctx level message af w0 (Suc ?k)
        = snd (ShouldLog p ctx level ?wk)"
      by (simp add: Let_def)
    have ev: "turn_events ?ps ctx level message af w0 ?k = [EvShouldLog ?k level False]"
      using False by (simp add: turn_events_def Let_def)
    show ?thesis
      unfolding up using False IH
      by (simp add: case_prod_unfold nxt [symmetric] ev del: world_at.simps upt_Suc)
  qed
qed

lemma writeLog_turns:
  "writeLog l ctx level message flds w
     = (concat (map (turn_events (providers l) ctx level message
                       (fst (ExtractFieldsFromContext (fieldsHandler l) ctx flds w))
                       (snd (ExtractFieldsFromContext (fieldsHandler l) ctx flds w)))
                  [0..<length (providers l)]),
        world_at (providers l) ctx level message
          (fst (ExtractFieldsFromContext (fieldsHandler l) ctx flds w))
          (snd (ExtractFieldsFromContext (fieldsHandler l) ctx flds w))
          (length (providers l)))"
  using writeLog_range_turns [of "providers l" "[]" ctx level message]
  by (simp add: writeLog_def extractFieldsFromContext_def case_prod_unfold)

lemma asked_turn_events: "asked (turn_events ps ctx level message af w0 i) = [i]"
  by (simp add: turn_events_def Let_def)

lemma written_turn_events:
  "written (turn_events ps ctx level message af w0 i)
     = (if fst (ShouldLog (ps ! i) ctx level (world_at ps ctx level message af w0 i))
        then [i] else [])"
  by (simp add: turn_events_def Let_def)

lemma asked_concat_turns:
  "asked (concat (map (turn_events ps ctx level message af w0) js)) = js"
  by (induction js) (simp_all add: asked_append asked_turn_events)

lemma written_concat_turns:
  "written (concat (map (turn_events ps ctx level message af w0) js))
     = filter (\<lambda>i. fst (ShouldLog (ps ! i) ctx level (world_at ps ctx level message af w0 i))) js"
  by (induction js) (simp_all add: written_append written_turn_events)

lemma fatal_exits_concat_turns:
  "fatal_exits (concat (map (turn_events ps ctx level message af w0) js)) = []"
  by (induction js) (simp_all add: turn_events_def Let_def)

lemma turn_in_trace:
  "i \<in> set js \<Longrightarrow> e \<in> set (turn_events ps ctx level message af w0 i)
     \<Longrightarrow> e \<in> set (concat (map (turn_events ps ctx level message af w0) js))"
  by auto

lemma turn_pointwise:
  fixes ps :: "'z LoggerProvider list" and ctx level message af w0 i js
  assumes "i \<in> set js"
  defines "answer \<equiv> ShouldLog (ps ! i) ctx level (world_at ps ctx level message af w0 i)"
  defines "tr \<equiv> concat (map (turn_events ps ctx level message af w0) js)"
  shows "EvShouldLog i level (fst answer) \<in> set tr
       \<and> (fst answer \<longrightarrow>
           EvWrite i level message af (fst (Write (ps ! i) ctx level message af (snd answer)))
             \<in> set tr
         \<and> world_at ps ctx level message af w0 (Suc i)
             = snd (Write (ps ! i) ctx level message af (snd answer)))
       \<and> (\<not> fst answer \<longrightarrow>
           i \<notin> set (written tr)
         \<and> world_at ps ctx level message af w0 (Suc i) = snd answer)"
proof (intro conjI impI)
  show "EvShouldLog i level (fst answer) \<in> set tr"
    unfolding tr_def
    by (rule turn_in_trace [OF assms(1)]) (simp add: turn_events_def answer_def Let_def)
  show "EvWrite i level message af (fst (Write (ps ! i) ctx level message af (snd answer)))
             \<in> set tr" if "fst answer"
    unfolding tr_def using that
    by (intro turn_in_trace [OF assms(1)]) (simp add: turn_events_def answer_def Let_def)
  show "world_at ps ctx level message af w0 (Suc i)
             = snd (Write (ps ! i) ctx level message af (snd answer))" if "fst answer"
    using that by (simp add: answer_def Let_def)
  show "i \<notin> set (written tr)" if "\<not> fst answer"
    using that by (simp add: tr_def written_concat_turns answer_def)
  show "world_at ps ctx level message af w0 (Suc i) = snd answer" if "\<not> fst answer"
    using that by (simp add: answer_def Let_def)
qed

text \<open>
  C1. One call of \<^verbatim>\<open>writeLog\<close> asks every provider of the logger's list \<^verbatim>\<open>ShouldLog\<close>
  once, in the order of the list, each in the world the providers before it have left;
  it calls \<^verbatim>\<open>Write\<close>, with the level, the message and the extracted fields, on exactly
  the providers whose own \<^verbatim>\<open>ShouldLog\<close> answered true, in that same order, and the world
  it returns is the one these calls produce; a provider whose \<^verbatim>\<open>ShouldLog\<close> answered
  false has no call of \<^verbatim>\<open>Write\<close>.
\<close>

theorem writeLog_writes_exactly_the_admitted:
  fixes l :: "'z logger" and ctx level message flds w
  defines "ps \<equiv> providers l"
    and "af \<equiv> fst (ExtractFieldsFromContext (fieldsHandler l) ctx flds w)"
    and "w0 \<equiv> snd (ExtractFieldsFromContext (fieldsHandler l) ctx flds w)"
    and "tr \<equiv> fst (writeLog l ctx level message flds w)"
  defines "W \<equiv> world_at ps ctx level message af w0"
  shows "asked tr = [0..<length (providers l)]
       \<and> written tr = admitted tr
       \<and> written tr = filter (\<lambda>i. EvShouldLog i level True \<in> set tr) [0..<length (providers l)]
       \<and> (\<forall>i. EvShouldLog i level False \<in> set tr \<longrightarrow> i \<notin> set (written tr))
       \<and> tr = concat (map (turn_events ps ctx level message af w0) [0..<length ps])
       \<and> snd (writeLog l ctx level message flds w) = W (length ps)
       \<and> W 0 = w0
       \<and> written tr = filter (\<lambda>i. fst (ShouldLog (ps ! i) ctx level (W i))) [0..<length ps]
       \<and> (\<forall>i. i < length ps \<longrightarrow>
             EvShouldLog i level (fst (ShouldLog (ps ! i) ctx level (W i))) \<in> set tr
           \<and> (fst (ShouldLog (ps ! i) ctx level (W i)) \<longrightarrow>
                 EvWrite i level message af
                   (fst (Write (ps ! i) ctx level message af
                           (snd (ShouldLog (ps ! i) ctx level (W i))))) \<in> set tr
               \<and> W (Suc i)
                   = snd (Write (ps ! i) ctx level message af
                            (snd (ShouldLog (ps ! i) ctx level (W i)))))
           \<and> (\<not> fst (ShouldLog (ps ! i) ctx level (W i)) \<longrightarrow>
                 i \<notin> set (written tr)
               \<and> W (Suc i) = snd (ShouldLog (ps ! i) ctx level (W i))))"
proof -
  obtain af' w1 where ex: "extractFieldsFromContext l ctx flds w = (af', w1)"
    by (cases "extractFieldsFromContext l ctx flds w")
  have tr: "tr = fst (writeLog_range (providers l) 0 ctx level message af' w1)"
    by (simp add: tr_def writeLog_def ex)
  have a: "asked tr = [0..<length (providers l)]"
    unfolding tr using asked_writeLog_range [of "providers l" 0] by simp
  have b: "written tr = admitted tr"
    unfolding tr by (rule written_admitted_writeLog_range)
  have c: "admitted tr = filter (\<lambda>i. EvShouldLog i level True \<in> set tr) [0..<length (providers l)]"
    unfolding tr using admitted_filter_writeLog_range [of "providers l" 0] by simp
  have d: "i \<notin> set (written tr)" if "EvShouldLog i level False \<in> set tr" for i
  proof
    assume "i \<in> set (written tr)"
    then have "EvShouldLog i level True \<in> set tr"
      unfolding b c by simp
    moreover have "EvShouldLog i level True \<notin> set tr"
      using that unfolding tr by (rule refused_not_admitted_writeLog_range)
    ultimately show False by simp
  qed
  have whole: "writeLog l ctx level message flds w
      = (concat (map (turn_events ps ctx level message af w0) [0..<length ps]), W (length ps))"
    unfolding W_def ps_def af_def w0_def by (rule writeLog_turns)
  then have e: "tr = concat (map (turn_events ps ctx level message af w0) [0..<length ps])"
    and f: "snd (writeLog l ctx level message flds w) = W (length ps)"
    by (simp_all add: tr_def)
  have g: "W 0 = w0"
    by (simp add: W_def)
  have h: "written tr = filter (\<lambda>i. fst (ShouldLog (ps ! i) ctx level (W i))) [0..<length ps]"
    unfolding e W_def by (rule written_concat_turns)
  have k: "EvShouldLog i level (fst (ShouldLog (ps ! i) ctx level (W i))) \<in> set tr
           \<and> (fst (ShouldLog (ps ! i) ctx level (W i)) \<longrightarrow>
                 EvWrite i level message af
                   (fst (Write (ps ! i) ctx level message af
                           (snd (ShouldLog (ps ! i) ctx level (W i))))) \<in> set tr
               \<and> W (Suc i)
                   = snd (Write (ps ! i) ctx level message af
                            (snd (ShouldLog (ps ! i) ctx level (W i)))))
           \<and> (\<not> fst (ShouldLog (ps ! i) ctx level (W i)) \<longrightarrow>
                 i \<notin> set (written tr)
               \<and> W (Suc i) = snd (ShouldLog (ps ! i) ctx level (W i)))"
    if "i < length ps" for i
  proof -
    from that have mem: "i \<in> set [0..<length ps]" by simp
    show ?thesis
      using turn_pointwise [OF mem, where ps = ps and ctx = ctx and level = level
              and message = message and af = af and ?w0.0 = w0]
      unfolding e W_def by blast
  qed
  have bc: "written tr = filter (\<lambda>i. EvShouldLog i level True \<in> set tr) [0..<length (providers l)]"
    using b c by simp
  have d': "\<forall>i. EvShouldLog i level False \<in> set tr \<longrightarrow> i \<notin> set (written tr)"
    using d by blast
  have k': "\<forall>i. i < length ps \<longrightarrow>
             EvShouldLog i level (fst (ShouldLog (ps ! i) ctx level (W i))) \<in> set tr
           \<and> (fst (ShouldLog (ps ! i) ctx level (W i)) \<longrightarrow>
                 EvWrite i level message af
                   (fst (Write (ps ! i) ctx level message af
                           (snd (ShouldLog (ps ! i) ctx level (W i))))) \<in> set tr
               \<and> W (Suc i)
                   = snd (Write (ps ! i) ctx level message af
                            (snd (ShouldLog (ps ! i) ctx level (W i)))))
           \<and> (\<not> fst (ShouldLog (ps ! i) ctx level (W i)) \<longrightarrow>
                 i \<notin> set (written tr)
               \<and> W (Suc i) = snd (ShouldLog (ps ! i) ctx level (W i)))"
    using k by blast
  show ?thesis
    by (intro conjI) (rule a b bc d' e f g h k')+
qed

lemma example_logger_trace:
  "fst (writeLog example_logger None LevelInfo ''hello'' None example_world) =
     [EvShouldLog 0 LevelInfo True,
      EvWrite 0 LevelInfo ''hello'' None (Some ''write failed''),
      EvShouldLog 1 LevelInfo False,
      EvShouldLog 2 LevelInfo True,
      EvWrite 2 LevelInfo ''hello'' None (Some ''write failed'')]"
  by (simp add: writeLog_def extractFieldsFromContext_def example_logger_def NewLogger_def
      NewFieldsHandler_def fieldsHandler_ExtractFieldsFromContext_def failing_provider_def
      NewFmtProvider_def fmtProvider_ShouldLog_def LevelInfo_def LevelError_def Let_def)

theorem writeLog_writes_exactly_the_admitted_witness:
  "EvShouldLog 1 LevelInfo False
     \<in> set (fst (writeLog example_logger None LevelInfo ''hello'' None example_world))
   \<and> 1 \<notin> set (written (fst (writeLog example_logger None LevelInfo ''hello'' None example_world)))
   \<and> written (fst (writeLog example_logger None LevelInfo ''hello'' None example_world)) = [0, 2]
   \<and> asked (fst (writeLog example_logger None LevelInfo ''hello'' None example_world)) = [0, 1, 2]
   \<and> EvWrite 0 LevelInfo ''hello'' None (Some ''write failed'')
       \<in> set (fst (writeLog example_logger None LevelInfo ''hello'' None example_world))"
proof -
  let ?tr = "fst (writeLog example_logger None LevelInfo ''hello'' None example_world)"
  let ?ps = "providers example_logger"
  let ?af = "fst (ExtractFieldsFromContext (fieldsHandler example_logger) None None example_world)"
  let ?w0 = "snd (ExtractFieldsFromContext (fieldsHandler example_logger) None None example_world)"
  let ?W = "world_at ?ps None LevelInfo ''hello'' ?af ?w0"
  note inst = writeLog_writes_exactly_the_admitted
                [of example_logger None LevelInfo "''hello''" None example_world]
  have h: "EvShouldLog 1 LevelInfo False \<in> set ?tr"
    by (simp add: example_logger_trace)
  have refused: "1 \<notin> set (written ?tr)"
    using inst h by blast
  have h0: "0 < length ?ps \<and> fst (ShouldLog (?ps ! 0) None LevelInfo (?W 0))"
    by (simp add: example_logger_providers) (simp add: failing_provider_def)
  have "EvWrite 0 LevelInfo ''hello'' ?af
          (fst (Write (?ps ! 0) None LevelInfo ''hello'' ?af
                  (snd (ShouldLog (?ps ! 0) None LevelInfo (?W 0))))) \<in> set ?tr"
    using inst h0 by blast
  then have "EvWrite 0 LevelInfo ''hello'' None (Some ''write failed'') \<in> set ?tr"
    by (simp add: example_logger_providers) (simp add: failing_provider_def)
  with refused h show ?thesis
    by (simp add: example_logger_trace)
qed

section \<open>Errors of providers\<close>

lemmas method_defs =
  Debug_def Info_def Warning_def Error_def Fatal_def
  DebugErr_def InfoErr_def WarningErr_def ErrorErr_def FatalErr_def
  DebugWithFields_def InfoWithFields_def WarningWithFields_def ErrorWithFields_def
  FatalWithFields_def
  DebugErrWithFields_def InfoErrWithFields_def WarningErrWithFields_def
  ErrorErrWithFields_def FatalErrWithFields_def

lemma Logger_call_refines:
  assumes "takes_error mth \<longrightarrow> err = Some e"
  shows "Logger_call d l mth ctx err flds format args w =
     (if is_fatal mth then Exited else Returned,
      fst (writeLog l ctx (level_of mth) (Sprintf d format args)
             (fst (delivered l (family_of mth) e flds w))
             (snd (delivered l (family_of mth) e flds w)))
        @ (if is_fatal mth
           then [EvLogFatal (fatal_text (family_of mth) (Sprintf d format args) e)] else []),
      snd (writeLog l ctx (level_of mth) (Sprintf d format args)
             (fst (delivered l (family_of mth) e flds w))
             (snd (delivered l (family_of mth) e flds w))))"
  using assms
  by (cases mth)
     (simp_all add: method_defs takes_error_def is_fatal_def Let_def case_prod_unfold)


lemma upt_split_at: "i < n \<Longrightarrow> [0..<n] = [0..<i] @ i # [Suc i..<n]"
  by (metis le_add1 less_imp_add_positive upt_add_eq_append upt_conv_Cons plus_nat.add_0)

text \<open>
  C2. When the provider at position \<open>i\<close> is written to and its \<^verbatim>\<open>Write\<close> returns an
  error, \<^verbatim>\<open>writeLog\<close> goes on: after that call come the turns of all the later
  providers, in order, each asked its own \<^verbatim>\<open>ShouldLog\<close> and, when that answers true,
  written to with its own \<^verbatim>\<open>Write\<close>, whose effect is in the world returned. Each of the
  twenty methods hands its level, message and fields to \<^verbatim>\<open>writeLog\<close> and ends for its
  caller by returning, or by the exit of the process for the Fatal methods: no error of
  a provider reaches the caller.
\<close>

theorem provider_write_error_not_propagated:
  fixes l :: "'z logger" and ctx level message flds w
  defines "ps \<equiv> providers l"
    and "af \<equiv> fst (ExtractFieldsFromContext (fieldsHandler l) ctx flds w)"
    and "w0 \<equiv> snd (ExtractFieldsFromContext (fieldsHandler l) ctx flds w)"
  defines "W \<equiv> world_at ps ctx level message af w0"
    and "turn \<equiv> turn_events ps ctx level message af w0"
  shows
    "(i < length ps
        \<and> fst (ShouldLog (ps ! i) ctx level (W i))
        \<and> fst (Write (ps ! i) ctx level message af (snd (ShouldLog (ps ! i) ctx level (W i))))
            = Some e
      \<longrightarrow> writeLog l ctx level message flds w
            = (concat (map turn [0..<i])
                 @ [EvShouldLog i level True, EvWrite i level message af (Some e)]
                 @ concat (map turn [Suc i..<length ps]),
               W (length ps))
          \<and> asked (concat (map turn [Suc i..<length ps])) = [Suc i..<length ps]
          \<and> written (concat (map turn [Suc i..<length ps]))
              = filter (\<lambda>j. fst (ShouldLog (ps ! j) ctx level (W j))) [Suc i..<length ps]
          \<and> (\<forall>j. i < j \<and> j < length ps \<longrightarrow>
                EvShouldLog j level (fst (ShouldLog (ps ! j) ctx level (W j)))
                  \<in> set (concat (map turn [Suc i..<length ps]))
              \<and> (fst (ShouldLog (ps ! j) ctx level (W j)) \<longrightarrow>
                    EvWrite j level message af
                      (fst (Write (ps ! j) ctx level message af
                              (snd (ShouldLog (ps ! j) ctx level (W j)))))
                      \<in> set (concat (map turn [Suc i..<length ps]))
                  \<and> W (Suc j)
                      = snd (Write (ps ! j) ctx level message af
                               (snd (ShouldLog (ps ! j) ctx level (W j)))))))
     \<and> ((takes_error mth \<longrightarrow> err = Some e') \<longrightarrow>
          Logger_call d l mth ctx err flds' format args w' =
            (if is_fatal mth then Exited else Returned,
             fst (writeLog l ctx (level_of mth) (Sprintf d format args)
                    (fst (delivered l (family_of mth) e' flds' w'))
                    (snd (delivered l (family_of mth) e' flds' w')))
               @ (if is_fatal mth
                  then [EvLogFatal (fatal_text (family_of mth) (Sprintf d format args) e')]
                  else []),
             snd (writeLog l ctx (level_of mth) (Sprintf d format args)
                    (fst (delivered l (family_of mth) e' flds' w'))
                    (snd (delivered l (family_of mth) e' flds' w')))))"
proof (rule conjI; rule impI)
  assume fail: "i < length ps
        \<and> fst (ShouldLog (ps ! i) ctx level (W i))
        \<and> fst (Write (ps ! i) ctx level message af (snd (ShouldLog (ps ! i) ctx level (W i))))
            = Some e"
  then have i: "i < length ps" by simp
  have ti: "turn i = [EvShouldLog i level True, EvWrite i level message af (Some e)]"
    using fail by (simp add: turn_def turn_events_def W_def Let_def)
  have whole: "writeLog l ctx level message flds w
      = (concat (map turn [0..<length ps]), W (length ps))"
    unfolding turn_def W_def ps_def af_def w0_def by (rule writeLog_turns)
  have split: "concat (map turn [0..<length ps])
      = concat (map turn [0..<i]) @ turn i @ concat (map turn [Suc i..<length ps])"
    by (simp add: upt_split_at [OF i])
  have run: "writeLog l ctx level message flds w
            = (concat (map turn [0..<i])
                 @ [EvShouldLog i level True, EvWrite i level message af (Some e)]
                 @ concat (map turn [Suc i..<length ps]),
               W (length ps))"
    by (simp add: whole split ti)
  have a: "asked (concat (map turn [Suc i..<length ps])) = [Suc i..<length ps]"
    unfolding turn_def by (rule asked_concat_turns)
  have b: "written (concat (map turn [Suc i..<length ps]))
              = filter (\<lambda>j. fst (ShouldLog (ps ! j) ctx level (W j))) [Suc i..<length ps]"
    unfolding turn_def W_def by (rule written_concat_turns)
  have c: "EvShouldLog j level (fst (ShouldLog (ps ! j) ctx level (W j)))
                  \<in> set (concat (map turn [Suc i..<length ps]))
              \<and> (fst (ShouldLog (ps ! j) ctx level (W j)) \<longrightarrow>
                    EvWrite j level message af
                      (fst (Write (ps ! j) ctx level message af
                              (snd (ShouldLog (ps ! j) ctx level (W j)))))
                      \<in> set (concat (map turn [Suc i..<length ps]))
                  \<and> W (Suc j)
                      = snd (Write (ps ! j) ctx level message af
                               (snd (ShouldLog (ps ! j) ctx level (W j)))))"
    if "i < j \<and> j < length ps" for j
  proof -
    from that have mem: "j \<in> set [Suc i..<length ps]" by simp
    show ?thesis
      using turn_pointwise [OF mem, where ps = ps and ctx = ctx and level = level
              and message = message and af = af and ?w0.0 = w0]
      unfolding turn_def W_def by blast
  qed
  from run a b c
  show "writeLog l ctx level message flds w
            = (concat (map turn [0..<i])
                 @ [EvShouldLog i level True, EvWrite i level message af (Some e)]
                 @ concat (map turn [Suc i..<length ps]),
               W (length ps))
          \<and> asked (concat (map turn [Suc i..<length ps])) = [Suc i..<length ps]
          \<and> written (concat (map turn [Suc i..<length ps]))
              = filter (\<lambda>j. fst (ShouldLog (ps ! j) ctx level (W j))) [Suc i..<length ps]
          \<and> (\<forall>j. i < j \<and> j < length ps \<longrightarrow>
                EvShouldLog j level (fst (ShouldLog (ps ! j) ctx level (W j)))
                  \<in> set (concat (map turn [Suc i..<length ps]))
              \<and> (fst (ShouldLog (ps ! j) ctx level (W j)) \<longrightarrow>
                    EvWrite j level message af
                      (fst (Write (ps ! j) ctx level message af
                              (snd (ShouldLog (ps ! j) ctx level (W j)))))
                      \<in> set (concat (map turn [Suc i..<length ps]))
                  \<and> W (Suc j)
                      = snd (Write (ps ! j) ctx level message af
                               (snd (ShouldLog (ps ! j) ctx level (W j))))))"
    by blast
next
  assume "takes_error mth \<longrightarrow> err = Some e'"
  then show "Logger_call d l mth ctx err flds' format args w' =
            (if is_fatal mth then Exited else Returned,
             fst (writeLog l ctx (level_of mth) (Sprintf d format args)
                    (fst (delivered l (family_of mth) e' flds' w'))
                    (snd (delivered l (family_of mth) e' flds' w')))
               @ (if is_fatal mth
                  then [EvLogFatal (fatal_text (family_of mth) (Sprintf d format args) e')]
                  else []),
             snd (writeLog l ctx (level_of mth) (Sprintf d format args)
                    (fst (delivered l (family_of mth) e' flds' w'))
                    (snd (delivered l (family_of mth) e' flds' w'))))"
    by (rule Logger_call_refines)
qed

lemma example_logger_Error_run:
  "writeLog example_logger None LevelError ''boom'' None example_world =
     ([EvShouldLog 0 LevelError True,
       EvWrite 0 LevelError ''boom'' None (Some ''write failed''),
       EvShouldLog 1 LevelError True,
       EvWrite 1 LevelError ''boom'' None None,
       EvShouldLog 2 LevelError True,
       EvWrite 2 LevelError ''boom'' None (Some ''write failed'')],
      example_world\<lparr>stdout :=
        [''[2025-11-29 10:00:00] error '' @ [CHR 0x22] @ ''boom'' @ [CHR 0x22] @ '' ''
           @ [CHR 0x0A]]\<rparr>)"
proof -
  have w: "now example_world = ''2025-11-29 10:00:00''" "stdout example_world = []"
    by (simp_all add: example_world_def)
  show ?thesis
    by (simp add: writeLog_def extractFieldsFromContext_def example_logger_def NewLogger_def
        NewFieldsHandler_def fieldsHandler_ExtractFieldsFromContext_def failing_provider_def
        NewFmtProvider_def fmtProvider_ShouldLog_def fmtProvider_Write_def fmt_Printf_def
        Let_def deref_def serializeFields_def levelStr_table w)
qed

lemma example_logger_ErrorErr_run:
  "fst (snd (ErrorErr example_deps example_logger None (Some ''disk full'') ''boom'' []
               example_world))
     = [EvShouldLog 0 LevelError True,
        EvWrite 0 LevelError ''boom'' (Some 5) (Some ''write failed''),
        EvShouldLog 1 LevelError True,
        EvWrite 1 LevelError ''boom'' (Some 5) None,
        EvShouldLog 2 LevelError True,
        EvWrite 2 LevelError ''boom'' (Some 5) (Some ''write failed'')]"
  "stdout (snd (snd (ErrorErr example_deps example_logger None (Some ''disk full'') ''boom'' []
               example_world)))
     = [''[2025-11-29 10:00:00] error '' @ [CHR 0x22] @ ''boom'' @ [CHR 0x22] @ '' {error=''
          @ [CHR 0x22] @ ''disk full'' @ [CHR 0x22] @ ''}'' @ [CHR 0x0A]]"
proof -
  have w: "now example_world = ''2025-11-29 10:00:00''" "stdout example_world = []"
    "length (heap example_world) = 5"
    "range_order example_world [''error'' \<mapsto> VString ''disk full''] = [''error'']"
    by (simp_all add: example_world_def)
  have run: "ErrorErr example_deps example_logger None (Some ''disk full'') ''boom'' []
               example_world
     = (Returned,
        [EvShouldLog 0 LevelError True,
         EvWrite 0 LevelError ''boom'' (Some 5) (Some ''write failed''),
         EvShouldLog 1 LevelError True,
         EvWrite 1 LevelError ''boom'' (Some 5) None,
         EvShouldLog 2 LevelError True,
         EvWrite 2 LevelError ''boom'' (Some 5) (Some ''write failed'')],
        example_world\<lparr>heap := heap example_world @ [[''error'' \<mapsto> VString ''disk full'']],
          stdout := [''[2025-11-29 10:00:00] error '' @ [CHR 0x22] @ ''boom'' @ [CHR 0x22]
             @ '' {error='' @ [CHR 0x22] @ ''disk full'' @ [CHR 0x22] @ ''}'' @ [CHR 0x0A]]\<rparr>)"
    by (simp add: ErrorErr_def Fields_literal_eq writeLog_def extractFieldsFromContext_def
        example_logger_def NewLogger_def NewFieldsHandler_def
        fieldsHandler_ExtractFieldsFromContext_def failing_provider_def NewFmtProvider_def
        fmtProvider_ShouldLog_def fmtProvider_Write_def fmt_Printf_def Let_def deref_def
        serializeFields_def serializePair_def fmt_q_def levelStr_table w example_deps_def
        nth_append)
  show "fst (snd (ErrorErr example_deps example_logger None (Some ''disk full'') ''boom'' []
               example_world))
     = [EvShouldLog 0 LevelError True,
        EvWrite 0 LevelError ''boom'' (Some 5) (Some ''write failed''),
        EvShouldLog 1 LevelError True,
        EvWrite 1 LevelError ''boom'' (Some 5) None,
        EvShouldLog 2 LevelError True,
        EvWrite 2 LevelError ''boom'' (Some 5) (Some ''write failed'')]"
    by (simp add: run)
  show "stdout (snd (snd (ErrorErr example_deps example_logger None (Some ''disk full'') ''boom'' []
               example_world)))
     = [''[2025-11-29 10:00:00] error '' @ [CHR 0x22] @ ''boom'' @ [CHR 0x22] @ '' {error=''
          @ [CHR 0x22] @ ''disk full'' @ [CHR 0x22] @ ''}'' @ [CHR 0x0A]]"
    by (simp add: run)
qed

theorem provider_write_error_not_propagated_witness:
  "\<exists>post. fst (writeLog example_logger None LevelError ''boom'' None example_world)
       = [EvShouldLog 0 LevelError True,
          EvWrite 0 LevelError ''boom'' None (Some ''write failed'')] @ post
     \<and> asked post = [1, 2]
     \<and> EvWrite 1 LevelError ''boom'' None None \<in> set post
     \<and> EvWrite 2 LevelError ''boom'' None (Some ''write failed'') \<in> set post
     \<and> stdout (snd (writeLog example_logger None LevelError ''boom'' None example_world))
         = [''[2025-11-29 10:00:00] error '' @ [CHR 0x22] @ ''boom'' @ [CHR 0x22] @ '' ''
              @ [CHR 0x0A]]
     \<and> fst (Logger_call example_deps example_logger M_ErrorErr None (Some ''disk full'') None
              ''boom'' [] example_world) = Returned
     \<and> stdout (snd (snd (Logger_call example_deps example_logger M_ErrorErr None
                            (Some ''disk full'') None ''boom'' [] example_world)))
         = [''[2025-11-29 10:00:00] error '' @ [CHR 0x22] @ ''boom'' @ [CHR 0x22]
              @ '' {error='' @ [CHR 0x22] @ ''disk full'' @ [CHR 0x22] @ ''}'' @ [CHR 0x0A]]"
proof -
  let ?ps = "providers example_logger"
  let ?turn = "turn_events ?ps None LevelError ''boom'' None example_world"
  have h: "0 < length ?ps
      \<and> fst (ShouldLog (?ps ! 0) None LevelError
               (world_at ?ps None LevelError ''boom'' None example_world 0))
      \<and> fst (Write (?ps ! 0) None LevelError ''boom'' None
               (snd (ShouldLog (?ps ! 0) None LevelError
                      (world_at ?ps None LevelError ''boom'' None example_world 0))))
          = Some ''write failed''"
    by (simp add: example_logger_providers) (simp add: failing_provider_def)
  note inst = provider_write_error_not_propagated
      [where l = example_logger and ctx = None and level = LevelError
         and message = "''boom''" and flds = None and w = example_world
         and i = 0 and e = "''write failed''" and mth = M_ErrorErr
         and err = "Some ''disk full''" and e' = "''disk full''" and d = example_deps
         and flds' = None and format = "''boom''" and args = "[]" and w' = example_world]
  have h': "takes_error M_ErrorErr \<longrightarrow> Some ''disk full'' = Some ''disk full''"
    by simp
  have outcome: "fst (Logger_call example_deps example_logger M_ErrorErr None (Some ''disk full'')
                        None ''boom'' [] example_world) = Returned"
    using inst h' by (simp add: is_fatal_def)
  have "writeLog example_logger None LevelError ''boom'' None example_world
      = (concat (map ?turn [0..<0])
           @ [EvShouldLog 0 LevelError True,
              EvWrite 0 LevelError ''boom'' None (Some ''write failed'')]
           @ concat (map ?turn [Suc 0..<length ?ps]),
         world_at ?ps None LevelError ''boom'' None example_world (length ?ps))
    \<and> asked (concat (map ?turn [Suc 0..<length ?ps])) = [Suc 0..<length ?ps]"
    using inst h
    by (simp add: example_logger_providers)
  then have "fst (writeLog example_logger None LevelError ''boom'' None example_world)
       = [EvShouldLog 0 LevelError True,
          EvWrite 0 LevelError ''boom'' None (Some ''write failed'')]
         @ concat (map ?turn [Suc 0..<length ?ps])"
    and "asked (concat (map ?turn [Suc 0..<length ?ps])) = [1, 2]"
    by (simp_all add: example_logger_providers upt_rec [of "Suc 0"] upt_rec [of 2]
          upt_rec [of "Suc (Suc 0)"])
  moreover from this(1)
  have "concat (map ?turn [Suc 0..<length ?ps])
      = [EvShouldLog 1 LevelError True,
         EvWrite 1 LevelError ''boom'' None None,
         EvShouldLog 2 LevelError True,
         EvWrite 2 LevelError ''boom'' None (Some ''write failed'')]"
    by (simp add: example_logger_Error_run)
  ultimately show ?thesis
    using outcome by (simp add: example_logger_Error_run example_logger_ErrorErr_run)
qed

section \<open>The Fatal methods\<close>

text \<open>
  C3, amended. \<^verbatim>\<open>Fatal\<close> and \<^verbatim>\<open>FatalWithFields\<close>, and \<^verbatim>\<open>FatalErr\<close> and
  \<^verbatim>\<open>FatalErrWithFields\<close> with an error that is not nil, end with the exit of the
  process. What precedes the call of \<^verbatim>\<open>log.Fatal\<close> is the whole of one call of
  \<^verbatim>\<open>writeLog\<close> at \<^verbatim>\<open>LevelFatal\<close> with the formatted message and the method's fields:
  every provider asked in order, those that answer true written to, whatever the calls
  of \<^verbatim>\<open>Write\<close> return. With a nil error \<^verbatim>\<open>FatalErr\<close> and \<^verbatim>\<open>FatalErrWithFields\<close> panic in
  \<^verbatim>\<open>err.Error()\<close> before any provider is asked.
\<close>

theorem Fatal_exits_after_dispatch:
  fixes l :: "'z logger" and d ctx flds format args w e
  defines "msg \<equiv> Sprintf d format args"
    and "ps \<equiv> providers l"
    and "lit \<equiv> Fields_literal ''error'' (VString e) w"
  defines "mg \<equiv> mergeFields l flds (fst lit) (snd lit)"
  shows
    "Fatal d l ctx format args w
       = (Exited, fst (writeLog l ctx LevelFatal msg None w) @ [EvLogFatal msg],
          snd (writeLog l ctx LevelFatal msg None w))
   \<and> FatalWithFields d l ctx flds format args w
       = (Exited, fst (writeLog l ctx LevelFatal msg flds w) @ [EvLogFatal msg],
          snd (writeLog l ctx LevelFatal msg flds w))
   \<and> FatalErr d l ctx (Some e) format args w
       = (Exited,
          fst (writeLog l ctx LevelFatal msg (fst lit) (snd lit))
            @ [EvLogFatal (msg @ '': '' @ e)],
          snd (writeLog l ctx LevelFatal msg (fst lit) (snd lit)))
   \<and> FatalErrWithFields d l ctx (Some e) flds format args w
       = (Exited,
          fst (writeLog l ctx LevelFatal msg (fst mg) (snd mg))
            @ [EvLogFatal (msg @ '': '' @ e)],
          snd (writeLog l ctx LevelFatal msg (fst mg) (snd mg)))
   \<and> FatalErr d l ctx None format args w = (Panicked, [], w)
   \<and> FatalErrWithFields d l ctx None flds format args w = (Panicked, [], w)
   \<and> (\<forall>f w1.
         writeLog l ctx LevelFatal msg f w1
           = (concat (map (turn_events ps ctx LevelFatal msg
                             (fst (ExtractFieldsFromContext (fieldsHandler l) ctx f w1))
                             (snd (ExtractFieldsFromContext (fieldsHandler l) ctx f w1)))
                        [0..<length ps]),
              world_at ps ctx LevelFatal msg
                (fst (ExtractFieldsFromContext (fieldsHandler l) ctx f w1))
                (snd (ExtractFieldsFromContext (fieldsHandler l) ctx f w1)) (length ps))
       \<and> asked (fst (writeLog l ctx LevelFatal msg f w1)) = [0..<length ps]
       \<and> written (fst (writeLog l ctx LevelFatal msg f w1))
           = filter (\<lambda>i. fst (ShouldLog (ps ! i) ctx LevelFatal
                               (world_at ps ctx LevelFatal msg
                                  (fst (ExtractFieldsFromContext (fieldsHandler l) ctx f w1))
                                  (snd (ExtractFieldsFromContext (fieldsHandler l) ctx f w1))
                                  i)))
               [0..<length ps]
       \<and> fatal_exits (fst (writeLog l ctx LevelFatal msg f w1)) = [])"
proof -
  have calls: "Fatal d l ctx format args w
       = (Exited, fst (writeLog l ctx LevelFatal msg None w) @ [EvLogFatal msg],
          snd (writeLog l ctx LevelFatal msg None w))"
    "FatalWithFields d l ctx flds format args w
       = (Exited, fst (writeLog l ctx LevelFatal msg flds w) @ [EvLogFatal msg],
          snd (writeLog l ctx LevelFatal msg flds w))"
    "FatalErr d l ctx (Some e) format args w
       = (Exited,
          fst (writeLog l ctx LevelFatal msg (fst lit) (snd lit))
            @ [EvLogFatal (msg @ '': '' @ e)],
          snd (writeLog l ctx LevelFatal msg (fst lit) (snd lit)))"
    "FatalErrWithFields d l ctx (Some e) flds format args w
       = (Exited,
          fst (writeLog l ctx LevelFatal msg (fst mg) (snd mg))
            @ [EvLogFatal (msg @ '': '' @ e)],
          snd (writeLog l ctx LevelFatal msg (fst mg) (snd mg)))"
    "FatalErr d l ctx None format args w = (Panicked, [], w)"
    "FatalErrWithFields d l ctx None flds format args w = (Panicked, [], w)"
    by (simp_all add: Fatal_def FatalWithFields_def FatalErr_def FatalErrWithFields_def
        Let_def case_prod_unfold msg_def lit_def mg_def)
  have disp: "writeLog l ctx LevelFatal msg f w1
           = (concat (map (turn_events ps ctx LevelFatal msg
                             (fst (ExtractFieldsFromContext (fieldsHandler l) ctx f w1))
                             (snd (ExtractFieldsFromContext (fieldsHandler l) ctx f w1)))
                        [0..<length ps]),
              world_at ps ctx LevelFatal msg
                (fst (ExtractFieldsFromContext (fieldsHandler l) ctx f w1))
                (snd (ExtractFieldsFromContext (fieldsHandler l) ctx f w1)) (length ps))
       \<and> asked (fst (writeLog l ctx LevelFatal msg f w1)) = [0..<length ps]
       \<and> written (fst (writeLog l ctx LevelFatal msg f w1))
           = filter (\<lambda>i. fst (ShouldLog (ps ! i) ctx LevelFatal
                               (world_at ps ctx LevelFatal msg
                                  (fst (ExtractFieldsFromContext (fieldsHandler l) ctx f w1))
                                  (snd (ExtractFieldsFromContext (fieldsHandler l) ctx f w1))
                                  i)))
               [0..<length ps]
       \<and> fatal_exits (fst (writeLog l ctx LevelFatal msg f w1)) = []" for f w1
    unfolding ps_def
    by (simp add: writeLog_turns asked_concat_turns written_concat_turns
        fatal_exits_concat_turns)
  show ?thesis
    by (intro conjI allI) (rule calls disp [THEN conjunct1] disp [THEN conjunct2, THEN conjunct1]
          disp [THEN conjunct2, THEN conjunct2, THEN conjunct1]
          disp [THEN conjunct2, THEN conjunct2, THEN conjunct2])+
qed

lemma failing_logger_writeLog:
  "writeLog failing_logger None LevelFatal ''boom'' None example_world =
     ([EvShouldLog 0 LevelFatal True,
       EvWrite 0 LevelFatal ''boom'' None (Some ''write failed''),
       EvShouldLog 1 LevelFatal True,
       EvWrite 1 LevelFatal ''boom'' None (Some ''write failed'')],
      example_world)"
  by (simp add: writeLog_def extractFieldsFromContext_def failing_logger_def
      NewLogger_def NewFieldsHandler_def fieldsHandler_ExtractFieldsFromContext_def
      failing_provider_def Let_def)

theorem Fatal_exits_after_dispatch_witness:
  "Fatal example_deps failing_logger None ''boom'' [] example_world
     = (Exited,
        [EvShouldLog 0 LevelFatal True,
         EvWrite 0 LevelFatal ''boom'' None (Some ''write failed''),
         EvShouldLog 1 LevelFatal True,
         EvWrite 1 LevelFatal ''boom'' None (Some ''write failed'')]
          @ [EvLogFatal ''boom''],
        example_world)"
proof -
  have "Sprintf example_deps ''boom'' [] = ''boom''"
    by (simp add: example_deps_def)
  then show ?thesis
    using Fatal_exits_after_dispatch [of example_deps failing_logger None "''boom''" "[]" example_world]
    by (simp add: failing_logger_writeLog)
qed

text \<open>
  The claim as first stated, for every call of a Fatal method, fails at a nil error:
  \<^verbatim>\<open>FatalErr\<close> panics, no provider is asked and \<^verbatim>\<open>log.Fatal\<close> is not reached.
\<close>

theorem FatalErr_nil_error_counterexample:
  "FatalErr example_deps failing_logger None None ''boom'' [] example_world
     = (Panicked, [], example_world)
   \<and> fst (FatalErr example_deps failing_logger None None ''boom'' [] example_world) \<noteq> Exited
   \<and> fatal_exits (fst (snd (FatalErr example_deps failing_logger None None ''boom'' []
                              example_world))) = []
   \<and> asked (fst (snd (FatalErr example_deps failing_logger None None ''boom'' []
                        example_world)))
       \<noteq> [0..<length (providers failing_logger)]"
  by (simp add: FatalErr_def failing_logger_def NewLogger_def)

section \<open>The methods with an error and fields\<close>

lemma MergeFields_literal:
  assumes "allocated w flds"
  shows "\<exists>af w2. fieldsHandler_MergeFields flds (Some (length (heap w)))
                    (w\<lparr>heap := heap w @ [[k \<mapsto> v]]\<rparr>) = (af, w2)
           \<and> deref w2 af = (deref w flds)(k \<mapsto> v)"
  using assms
  by (cases flds)
     (auto simp: fieldsHandler_MergeFields_def make_Fields_def maps_Copy_def Let_def
        deref_def allocated_def nth_append)

text \<open>
  C4. For a logger that merges with the package's \<^verbatim>\<open>MergeFields\<close>, an error that is not
  nil and fields that are nil or a map object of the store: each of the five
  \<^verbatim>\<open>ErrWithFields\<close> methods calls \<^verbatim>\<open>writeLog\<close> with the result of merging the given fields
  (base) with a new one-entry map that holds the error's text under \<open>error\<close> (overlay).
  The contents of the fields delivered are those given with \<open>error\<close> set to the error's
  text, whatever the given fields held under that key.
\<close>

theorem ErrWithFields_error_overlays_fields:
  assumes "allocated w flds" and "MergeFields (fieldsHandler l) = fieldsHandler_MergeFields"
  shows "\<exists>errFields w1 allFields w2.
       Fields_literal ''error'' (VString e) w = (errFields, w1)
     \<and> deref w1 errFields = [''error'' \<mapsto> VString e]
     \<and> mergeFields l flds errFields w1 = (allFields, w2)
     \<and> deref w2 allFields = (deref w flds)(''error'' \<mapsto> VString e)
     \<and> deref w2 allFields ''error'' = Some (VString e)
     \<and> DebugErrWithFields d l ctx (Some e) flds format args w
         = (case writeLog l ctx LevelDebug (Sprintf d format args) allFields w2 of
              (tr, w3) \<Rightarrow> (Returned, tr, w3))
     \<and> InfoErrWithFields d l ctx (Some e) flds format args w
         = (case writeLog l ctx LevelInfo (Sprintf d format args) allFields w2 of
              (tr, w3) \<Rightarrow> (Returned, tr, w3))
     \<and> WarningErrWithFields d l ctx (Some e) flds format args w
         = (case writeLog l ctx LevelWarn (Sprintf d format args) allFields w2 of
              (tr, w3) \<Rightarrow> (Returned, tr, w3))
     \<and> ErrorErrWithFields d l ctx (Some e) flds format args w
         = (case writeLog l ctx LevelError (Sprintf d format args) allFields w2 of
              (tr, w3) \<Rightarrow> (Returned, tr, w3))
     \<and> FatalErrWithFields d l ctx (Some e) flds format args w
         = (case writeLog l ctx LevelFatal (Sprintf d format args) allFields w2 of
              (tr, w3) \<Rightarrow>
                (Exited, tr @ [EvLogFatal (Sprintf d format args @ '': '' @ e)], w3))"
proof -
  let ?w1 = "w\<lparr>heap := heap w @ [[''error'' \<mapsto> VString e]]\<rparr>"
  let ?ef = "Some (length (heap w))"
  have lit: "Fields_literal ''error'' (VString e) w = (?ef, ?w1)"
    by (rule Fields_literal_eq)
  have d1: "deref ?w1 ?ef = [''error'' \<mapsto> VString e]"
    by (simp add: deref_def)
  obtain af w2 where
    mg: "fieldsHandler_MergeFields flds ?ef ?w1 = (af, w2)"
    and d2: "deref w2 af = (deref w flds)(''error'' \<mapsto> VString e)"
    using MergeFields_literal [OF assms(1), of "''error''" "VString e"] by blast
  have mg': "mergeFields l flds ?ef ?w1 = (af, w2)"
    by (simp add: mergeFields_def assms(2) mg)
  show ?thesis
    apply (rule exI [of _ ?ef], rule exI [of _ ?w1], rule exI [of _ af], rule exI [of _ w2])
    apply (simp add: lit d1 mg' d2 DebugErrWithFields_def InfoErrWithFields_def
        WarningErrWithFields_def ErrorErrWithFields_def FatalErrWithFields_def Let_def)
    done
qed

theorem ErrWithFields_error_overlays_fields_witness:
  "\<exists>allFields w2 tr w3.
      ErrorErrWithFields example_deps failing_logger None (Some ''disk full'') (Some 4)
          ''save'' [] example_world = (Returned, tr, w3)
    \<and> (tr, w3) = writeLog failing_logger None LevelError ''save'' allFields w2
    \<and> deref w2 allFields = [''error'' \<mapsto> VString ''disk full'', ''user'' \<mapsto> VString ''bob'']
    \<and> deref w2 (Some 4) = [''error'' \<mapsto> VOther ''stale'', ''user'' \<mapsto> VString ''bob'']"
proof -
  have h: "allocated example_world (Some 4)
      \<and> MergeFields (fieldsHandler failing_logger) = fieldsHandler_MergeFields"
    by (simp add: example_allocated failing_logger_def NewLogger_def NewFieldsHandler_def)
  obtain ef w1 af w2 where
    lit: "Fields_literal ''error'' (VString ''disk full'') example_world = (ef, w1)"
    and mg: "mergeFields failing_logger (Some 4) ef w1 = (af, w2)"
    and d2: "deref w2 af = (deref example_world (Some 4))(''error'' \<mapsto> VString ''disk full'')"
    and run: "ErrorErrWithFields example_deps failing_logger None (Some ''disk full'') (Some 4)
          ''save'' [] example_world
         = (case writeLog failing_logger None LevelError (Sprintf example_deps ''save'' []) af w2 of
              (tr, w3) \<Rightarrow> (Returned, tr, w3))"
    using ErrWithFields_error_overlays_fields [of example_world "Some 4" failing_logger "''disk full''" example_deps None
                "''save''" "[]"] h
    by blast
  have same: "deref w2 (Some 4) = deref example_world (Some 4)"
    using lit mg
    by (auto simp: Fields_literal_eq mergeFields_def failing_logger_def NewLogger_def
        NewFieldsHandler_def fieldsHandler_MergeFields_def make_Fields_def maps_Copy_def
        Let_def deref_def example_world_def nth_append)
  have m: "[''error'' \<mapsto> VOther ''stale'', ''user'' \<mapsto> VString ''bob''](''error'' \<mapsto> VString ''disk full'')
      = [''error'' \<mapsto> VString ''disk full'', ''user'' \<mapsto> VString ''bob'']"
    by (auto simp: fun_eq_iff)
  obtain tr w3 where wl: "writeLog failing_logger None LevelError ''save'' af w2 = (tr, w3)"
    by (cases "writeLog failing_logger None LevelError ''save'' af w2")
  have "Sprintf example_deps ''save'' [] = ''save''"
    by (simp add: example_deps_def)
  with run wl have "ErrorErrWithFields example_deps failing_logger None (Some ''disk full'') (Some 4)
          ''save'' [] example_world = (Returned, tr, w3)"
    by simp
  with wl d2 same show ?thesis
    by (simp add: example_deref m) (metis wl)
qed

section \<open>What the console provider prints\<close>

lemma strings_Join_nonempty: "x \<noteq> [] \<Longrightarrow> strings_Join (x # xs) sep \<noteq> []"
  by (cases xs) simp_all

lemma map_filter_present:
  "set ks \<subseteq> dom m \<Longrightarrow>
     List.map_filter (\<lambda>k. map_option (f k) (m k)) ks = map (\<lambda>k. f k (the (m k))) ks"
  by (induction ks) auto

lemma serializePair_eq:
  "serializePair d k v =
     k @ ''='' @ (case v of VString s \<Rightarrow> CHR 0x22 # quote_body d s @ [CHR 0x22] | VOther r \<Rightarrow> r)"
  by (cases v) (simp_all add: serializePair_def fmt_q_def)

lemma serializeFields_empty: "m = Map.empty \<Longrightarrow> serializeFields d ks m = []"
  by (simp add: serializeFields_def)

lemma serializeFields_nonempty:
  assumes "m \<noteq> Map.empty" and "set ks = dom m"
  shows "serializeFields d ks m =
           ''{'' @ strings_Join (map (\<lambda>k. k @ ''='' @
                    (case the (m k) of VString s \<Rightarrow> CHR 0x22 # quote_body d s @ [CHR 0x22]
                     | VOther r \<Rightarrow> r)) ks) '' '' @ ''}''"
    and "serializeFields d ks m \<noteq> ''{}''"
proof -
  from assms have ne: "dom m \<noteq> {}" by simp
  have sub: "set ks \<subseteq> dom m" using assms(2) by simp
  show eq: "serializeFields d ks m =
           ''{'' @ strings_Join (map (\<lambda>k. k @ ''='' @
                    (case the (m k) of VString s \<Rightarrow> CHR 0x22 # quote_body d s @ [CHR 0x22]
                     | VOther r \<Rightarrow> r)) ks) '' '' @ ''}''"
    using ne by (simp add: serializeFields_def map_filter_present [OF sub] serializePair_eq)
  from ne assms(2) obtain k ks' where ks: "ks = k # ks'"
    by (cases ks) auto
  have "strings_Join (map (\<lambda>k. k @ ''='' @
                    (case the (m k) of VString s \<Rightarrow> CHR 0x22 # quote_body d s @ [CHR 0x22]
                     | VOther r \<Rightarrow> r)) ks) '' '' \<noteq> []"
    unfolding ks by (simp add: strings_Join_nonempty)
  then show "serializeFields d ks m \<noteq> ''{}''"
    by (simp add: eq)
qed

text \<open>
  C8. For one of the five levels, at or above the provider's minimum, and a \<^verbatim>\<open>range\<close>
  that visits every key of the fields once: \<^verbatim>\<open>Write\<close> prints once, the text
  \<^verbatim>\<open>[now] name "message" block\<close> and a newline. The name is debug, info, warning, error
  or critical, the last for \<^verbatim>\<open>LevelFatal\<close>. The block is never \<^verbatim>\<open>{}\<close>: it is empty when
  the fields are empty or nil, and otherwise it is the pairs \<^verbatim>\<open>k=v\<close> of all the entries,
  separated by blanks, between braces, a string value written between double quotes.
\<close>

theorem Write_line_format:
  assumes "level \<in> {LevelDebug, LevelInfo, LevelWarn, LevelError, LevelFatal}"
    and "Level (fmtProvider.config p) \<le> level"
    and "distinct (range_order w (deref w flds))"
    and "set (range_order w (deref w flds)) = dom (deref w flds)"
  shows "\<exists>name block.
      fmtProvider_Write d p ctx level message flds w
        = (None, w\<lparr>stdout := stdout w @
             [''['' @ now w @ ''] '' @ name @ '' '' @ [CHR 0x22] @ message @ [CHR 0x22] @ '' ''
                @ block @ [CHR 0x0A]]\<rparr>)
    \<and> (level = LevelDebug \<longrightarrow> name = ''debug'')
    \<and> (level = LevelInfo \<longrightarrow> name = ''info'')
    \<and> (level = LevelWarn \<longrightarrow> name = ''warning'')
    \<and> (level = LevelError \<longrightarrow> name = ''error'')
    \<and> (level = LevelFatal \<longrightarrow> name = ''critical'')
    \<and> name \<in> {''debug'', ''info'', ''warning'', ''error'', ''critical''}
    \<and> block \<noteq> ''{}''
    \<and> (deref w flds = Map.empty \<longrightarrow> block = [])
    \<and> (deref w flds \<noteq> Map.empty \<longrightarrow>
         (\<exists>ks. distinct ks \<and> set ks = dom (deref w flds) \<and>
            block = ''{'' @ strings_Join (map (\<lambda>k. k @ ''='' @
                      (case the (deref w flds k) of
                         VString s \<Rightarrow> CHR 0x22 # quote_body d s @ [CHR 0x22]
                       | VOther r \<Rightarrow> r)) ks) '' '' @ ''}''))"
proof -
  let ?m = "deref w flds"
  let ?ks = "range_order w ?m"
  let ?block = "serializeFields d ?ks ?m"
  have run: "fmtProvider_Write d p ctx level message flds w
        = (None, w\<lparr>stdout := stdout w @
             [''['' @ now w @ ''] '' @ levelStr level @ '' '' @ [CHR 0x22] @ message @ [CHR 0x22]
                @ '' '' @ ?block @ [CHR 0x0A]]\<rparr>)"
    using assms(2) by (simp add: fmtProvider_Write_def fmt_Printf_def fmtProvider_ShouldLog_def Let_def)
  have name: "(level = LevelDebug \<longrightarrow> levelStr level = ''debug'')
    \<and> (level = LevelInfo \<longrightarrow> levelStr level = ''info'')
    \<and> (level = LevelWarn \<longrightarrow> levelStr level = ''warning'')
    \<and> (level = LevelError \<longrightarrow> levelStr level = ''error'')
    \<and> (level = LevelFatal \<longrightarrow> levelStr level = ''critical'')
    \<and> levelStr level \<in> {''debug'', ''info'', ''warning'', ''error'', ''critical''}"
    using assms(1) by (auto simp: levelStr_table)
  have b1: "?block \<noteq> ''{}''"
  proof (cases "?m = Map.empty")
    case True
    then show ?thesis by (simp add: serializeFields_empty)
  next
    case False
    then show ?thesis using assms(4) by (rule serializeFields_nonempty(2))
  qed
  have b2: "?m = Map.empty \<longrightarrow> ?block = []"
    by (simp add: serializeFields_empty)
  have b3: "?m \<noteq> Map.empty \<longrightarrow>
         (\<exists>ks. distinct ks \<and> set ks = dom ?m \<and>
            ?block = ''{'' @ strings_Join (map (\<lambda>k. k @ ''='' @
                      (case the (?m k) of
                         VString s \<Rightarrow> CHR 0x22 # quote_body d s @ [CHR 0x22]
                       | VOther r \<Rightarrow> r)) ks) '' '' @ ''}'')"
  proof
    assume ne: "?m \<noteq> Map.empty"
    show "\<exists>ks. distinct ks \<and> set ks = dom ?m \<and>
            ?block = ''{'' @ strings_Join (map (\<lambda>k. k @ ''='' @
                      (case the (?m k) of
                         VString s \<Rightarrow> CHR 0x22 # quote_body d s @ [CHR 0x22]
                       | VOther r \<Rightarrow> r)) ks) '' '' @ ''}''"
      using assms(3) assms(4) serializeFields_nonempty(1) [OF ne assms(4), of d]
      by blast
  qed
  from run name b1 b2 b3 show ?thesis by blast
qed

lemma example_console_run:
  "fmtProvider_Write example_deps
      \<lparr>fmtProvider.config = \<lparr>LoggerConfig = (), Level = LevelDebug\<rparr>\<rparr>
      None LevelInfo ''hello'' (Some 3) example_world
   = (None, example_world\<lparr>stdout :=
        [''[2025-11-29 10:00:00] info '' @ [CHR 0x22] @ ''hello'' @ [CHR 0x22] @ '' {user=''
           @ [CHR 0x22] @ ''bob'' @ [CHR 0x22] @ ''}'' @ [CHR 0x0A]]\<rparr>)"
proof -
  have le: "LevelDebug \<le> LevelInfo"
    by (simp add: LevelDebug_def LevelInfo_def)
  have ro: "range_order example_world [''user'' \<mapsto> VString ''bob''] = [''user'']"
    by (simp add: example_world_def)
  have w: "now example_world = ''2025-11-29 10:00:00''" "stdout example_world = []"
    by (simp_all add: example_world_def)
  show ?thesis
    by (simp add: fmtProvider_Write_def fmt_Printf_def fmtProvider_ShouldLog_def Let_def
        levelStr_table
        example_deref serializeFields_def serializePair_def fmt_q_def
        le ro w example_deps_def)
qed

theorem Write_line_format_witness:
  "\<exists>name block.
      fmtProvider_Write example_deps
          \<lparr>fmtProvider.config = \<lparr>LoggerConfig = (), Level = LevelDebug\<rparr>\<rparr>
          None LevelInfo ''hello'' (Some 3) example_world
        = (None, example_world\<lparr>stdout := stdout example_world @
             [''['' @ now example_world @ ''] '' @ name @ '' '' @ [CHR 0x22] @ ''hello''
                @ [CHR 0x22] @ '' '' @ block @ [CHR 0x0A]]\<rparr>)
    \<and> name = ''info''
    \<and> block = ''{user='' @ [CHR 0x22] @ ''bob'' @ [CHR 0x22] @ ''}''"
proof -
  let ?p = "\<lparr>fmtProvider.config = \<lparr>LoggerConfig = (), Level = LevelDebug\<rparr>\<rparr>"
  have h1: "LevelInfo \<in> {LevelDebug, LevelInfo, LevelWarn, LevelError, LevelFatal}"
    by simp
  have h2: "Level (fmtProvider.config ?p) \<le> LevelInfo"
    by (simp add: LevelDebug_def LevelInfo_def)
  have ro: "range_order example_world (deref example_world (Some 3)) = [''user'']"
    by (simp add: example_deref) (simp add: example_world_def)
  have h3: "distinct (range_order example_world (deref example_world (Some 3)))"
    by (simp add: ro)
  have h4: "set (range_order example_world (deref example_world (Some 3)))
      = dom (deref example_world (Some 3))"
    by (simp add: ro) (simp add: example_deref)
  obtain name block where
    run: "fmtProvider_Write example_deps ?p None LevelInfo ''hello'' (Some 3) example_world
        = (None, example_world\<lparr>stdout := stdout example_world @
             [''['' @ now example_world @ ''] '' @ name @ '' '' @ [CHR 0x22] @ ''hello''
                @ [CHR 0x22] @ '' '' @ block @ [CHR 0x0A]]\<rparr>)"
    and name: "LevelInfo = LevelInfo \<longrightarrow> name = ''info''"
    using Write_line_format [OF h1 h2 h3 h4, of example_deps None "''hello''"] by blast
  have now: "now example_world = ''2025-11-29 10:00:00''" "stdout example_world = []"
    by (simp_all add: example_world_def)
  from run have "stdout (snd (fmtProvider_Write example_deps ?p None LevelInfo ''hello'' (Some 3)
                                 example_world))
      = [''['' @ now example_world @ ''] '' @ name @ '' '' @ [CHR 0x22] @ ''hello''
                @ [CHR 0x22] @ '' '' @ block @ [CHR 0x0A]]"
    by (simp add: now)
  with name have "block = ''{user='' @ [CHR 0x22] @ ''bob'' @ [CHR 0x22] @ ''}''"
    by (simp add: example_console_run now)
  with run name show ?thesis
    by blast
qed




text \<open>
  C10. Called with a level below the configured minimum, the console provider's
  \<^verbatim>\<open>Write\<close> returns nil and leaves the world, standard output included, as it is.
\<close>

theorem Write_below_minimum_prints_nothing:
  assumes "level < Level (fmtProvider.config p)"
  shows "fmtProvider_Write d p ctx level message flds w = (None, w)"
  using assms by (simp add: fmtProvider_Write_def fmt_Printf_def fmtProvider_ShouldLog_def)

theorem Write_below_minimum_prints_nothing_witness:
  "LevelInfo < LevelError
   \<and> fmtProvider_Write example_deps
        \<lparr>fmtProvider.config = \<lparr>LoggerConfig = (), Level = LevelError\<rparr>\<rparr>
        None LevelInfo ''hello'' (Some 3) example_world = (None, example_world)"
proof -
  have h: "LevelInfo < Level (fmtProvider.config
              \<lparr>fmtProvider.config = \<lparr>LoggerConfig = (), Level = LevelError\<rparr>\<rparr>)"
    by (simp add: LevelInfo_def LevelError_def)
  show ?thesis
    using Write_below_minimum_prints_nothing [OF h, of example_deps None "''hello''" "Some 3" example_world] h
    by simp
qed

end
